theory Spec2Isabelle
  imports Complex_Main
begin

section \<open>Python values: exceptions and results\<close>

text \<open>
  The exceptions the module can raise, as values. \<open>AttributeError a\<close> is the read of
  an attribute \<open>a\<close> the instance does not have, \<open>NameError x\<close> the read of a global
  name \<open>x\<close> the module never bound. \<open>IndexError\<close>, \<open>ValueError\<close> and \<open>AxisError\<close>
  are numpy's, \<open>SystemExit c\<close> is what \<open>sys.exit(c)\<close> raises. \<open>ExternalError c\<close> is
  an exception of class \<open>c\<close> raised inside a scikit-learn collaborator
  (GaussianMixture, Ridge, r2_score).
\<close>

datatype error =
    AttributeError string
  | NameError string
  | IndexError
  | ValueError
  | AxisError
  | SystemExit "int option"
  | ExternalError string

fun error_class :: "error \<Rightarrow> string" where
  "error_class (AttributeError a) = ''AttributeError''"
| "error_class (NameError x) = ''NameError''"
| "error_class IndexError = ''IndexError''"
| "error_class ValueError = ''ValueError''"
| "error_class AxisError = ''AxisError''"
| "error_class (SystemExit c) = ''SystemExit''"
| "error_class (ExternalError c) = c"

text \<open>Sequencing of fallible steps: the first exception ends the computation.\<close>

definition bind :: "error + 'a \<Rightarrow> ('a \<Rightarrow> error + 'b) \<Rightarrow> error + 'b" where
  "bind m f = (case m of Inl e \<Rightarrow> Inl e | Inr x \<Rightarrow> f x)"

section \<open>numpy arrays\<close>

text \<open>
  An array is its shape and its elements in row-major order. Floating-point numbers
  are idealised as reals: rounding, infinities and NaN are not modelled. An array is
  well formed when it has as many elements as its shape says; every numpy array is.
\<close>

datatype 'a ndarray = NDArray (shape: "nat list") (data: "'a list")

definition well_formed :: "'a ndarray \<Rightarrow> bool" where
  "well_formed a = (length (data a) = prod_list (shape a))"

definition ndim :: "'a ndarray \<Rightarrow> nat" where
  "ndim a = length (shape a)"

text \<open>All multi-indices of a shape, in row-major order, and the position of one.\<close>

fun indices :: "nat list \<Rightarrow> nat list list" where
  "indices [] = [[]]"
| "indices (n # ns) = concat (map (\<lambda>i. map (\<lambda>js. i # js) (indices ns)) [0..<n])"

fun flat_index :: "nat list \<Rightarrow> nat list \<Rightarrow> nat" where
  "flat_index (n # ns) (i # js) = i * prod_list ns + flat_index ns js"
| "flat_index ns js = 0"

fun valid_index :: "nat list \<Rightarrow> nat list \<Rightarrow> bool" where
  "valid_index [] [] = True"
| "valid_index (n # ns) (i # js) = (i < n \<and> valid_index ns js)"
| "valid_index ns js = False"

definition elem :: "'a ndarray \<Rightarrow> nat list \<Rightarrow> 'a" where
  "elem a idx = data a ! flat_index (shape a) idx"

definition build :: "nat list \<Rightarrow> (nat list \<Rightarrow> 'a) \<Rightarrow> 'a ndarray" where
  "build s f = NDArray s (map f (indices s))"

text \<open>A Python or numpy scalar is handled as the 0-dimensional array.\<close>

definition scalar :: "'a \<Rightarrow> 'a ndarray" where
  "scalar x = NDArray [] [x]"

definition np_zeros :: "nat list \<Rightarrow> real ndarray" where
  "np_zeros s = build s (\<lambda>idx. 0)"

definition np_ones :: "nat list \<Rightarrow> real ndarray" where
  "np_ones s = build s (\<lambda>idx. 1)"

text \<open>
  \<open>np.empty\<close> returns unspecified elements. Every array the module makes with it is
  overwritten in full before it is read, so the model fills it with zeros.
\<close>

definition np_empty :: "nat list \<Rightarrow> real ndarray" where
  "np_empty s = np_zeros s"

subsection \<open>Broadcasting\<close>

text \<open>
  Shapes are aligned at their last axis; two extents are compatible when they are equal
  or one of them is 1. \<open>bc_rev\<close> works on the reversed shapes.
\<close>

fun bc_rev :: "nat list \<Rightarrow> nat list \<Rightarrow> nat list option" where
  "bc_rev [] ys = Some ys"
| "bc_rev xs [] = Some xs"
| "bc_rev (x # xs) (y # ys) =
     (if x = y \<or> y = 1 then map_option (\<lambda>r. x # r) (bc_rev xs ys)
      else if x = 1 then map_option (\<lambda>r. y # r) (bc_rev xs ys)
      else None)"

definition broadcast_shapes :: "nat list \<Rightarrow> nat list \<Rightarrow> nat list option" where
  "broadcast_shapes s1 s2 = map_option rev (bc_rev (rev s1) (rev s2))"

text \<open>The index of an operand of shape \<open>s\<close> that an index of the broadcast result reads.\<close>

definition bc_index :: "nat list \<Rightarrow> nat list \<Rightarrow> nat list" where
  "bc_index s idx =
     map (\<lambda>(n, i). if n = 1 then 0 else i) (zip s (drop (length idx - length s) idx))"

definition np_binop ::
  "('a \<Rightarrow> 'a \<Rightarrow> 'a) \<Rightarrow> 'a ndarray \<Rightarrow> 'a ndarray \<Rightarrow> error + 'a ndarray" where
  "np_binop f a b =
     (case broadcast_shapes (shape a) (shape b) of
        None \<Rightarrow> Inl ValueError
      | Some s \<Rightarrow>
          Inr (build s (\<lambda>idx. f (elem a (bc_index (shape a) idx)) (elem b (bc_index (shape b) idx)))))"

text \<open>\<open>a += b\<close>: the broadcast result must have the shape of \<open>a\<close>, which is written in place.\<close>

definition np_iadd :: "real ndarray \<Rightarrow> real ndarray \<Rightarrow> error + real ndarray" where
  "np_iadd a b =
     (if broadcast_shapes (shape a) (shape b) = Some (shape a)
      then np_binop (\<lambda>x y. x + y) a b else Inl ValueError)"

text \<open>
  The right-hand side of a slice assignment is broadcast to the slice's shape \<open>ts\<close>;
  leading axes of extent 1 that the slice does not have are dropped first.
\<close>

fun strip_ones :: "nat \<Rightarrow> nat list \<Rightarrow> nat list" where
  "strip_ones m (n # ns) = (if m < length (n # ns) \<and> n = 1 then strip_ones m ns else n # ns)"
| "strip_ones m [] = []"

definition assign_src :: "nat list \<Rightarrow> 'a ndarray \<Rightarrow> error + (nat list \<Rightarrow> 'a)" where
  "assign_src ts src =
     (let ss = strip_ones (length ts) (shape src) in
      if length ss \<le> length ts \<and> broadcast_shapes ts ss = Some ts
      then Inr (\<lambda>idx. elem (NDArray ss (data src)) (bc_index ss idx))
      else Inl ValueError)"

subsection \<open>Indexing\<close>

text \<open>\<open>a[:, np.newaxis]\<close>\<close>

definition getitem_slice_newaxis :: "'a ndarray \<Rightarrow> error + 'a ndarray" where
  "getitem_slice_newaxis a =
     (case shape a of
        [] \<Rightarrow> Inl IndexError
      | n # ns \<Rightarrow> Inr (NDArray (n # 1 # ns) (data a)))"

text \<open>\<open>a[np.newaxis, :, :]\<close>\<close>

definition getitem_newaxis_slice_slice :: "'a ndarray \<Rightarrow> error + 'a ndarray" where
  "getitem_newaxis_slice_slice a =
     (if ndim a < 2 then Inl IndexError else Inr (NDArray (1 # shape a) (data a)))"

text \<open>\<open>a[k]\<close>, \<open>a[:, k]\<close> and \<open>a[:, :, k]\<close> for an integer \<open>k \<ge> 0\<close>\<close>

definition getitem_int :: "'a ndarray \<Rightarrow> nat \<Rightarrow> error + 'a ndarray" where
  "getitem_int a k =
     (case shape a of
        n # ns \<Rightarrow>
          if k < n then Inr (build ns (\<lambda>idx. elem a (k # idx))) else Inl IndexError
      | _ \<Rightarrow> Inl IndexError)"

definition getitem_slice_int :: "'a ndarray \<Rightarrow> nat \<Rightarrow> error + 'a ndarray" where
  "getitem_slice_int a k =
     (case shape a of
        n0 # n1 # ns \<Rightarrow>
          if k < n1 then Inr (build (n0 # ns) (\<lambda>idx. elem a (hd idx # k # tl idx)))
          else Inl IndexError
      | _ \<Rightarrow> Inl IndexError)"

definition getitem_slice_slice_int :: "'a ndarray \<Rightarrow> nat \<Rightarrow> error + 'a ndarray" where
  "getitem_slice_slice_int a k =
     (case shape a of
        n0 # n1 # n2 # ns \<Rightarrow>
          if k < n2
          then Inr (build (n0 # n1 # ns) (\<lambda>idx. elem a (take 2 idx @ k # drop 2 idx)))
          else Inl IndexError
      | _ \<Rightarrow> Inl IndexError)"

text \<open>\<open>a[:, 0] = src\<close>, \<open>a[:, 1:] = src\<close>, \<open>a[:, k] = src\<close> and \<open>a[:, :, k] = src\<close>\<close>

definition setitem_slice_int :: "'a ndarray \<Rightarrow> nat \<Rightarrow> 'a ndarray \<Rightarrow> error + 'a ndarray" where
  "setitem_slice_int a k src =
     (case shape a of
        n0 # n1 # ns \<Rightarrow>
          if k < n1
          then bind (assign_src (n0 # ns) src)
                 (\<lambda>g. Inr (build (shape a)
                    (\<lambda>idx. if idx ! 1 = k then g (hd idx # drop 2 idx) else elem a idx)))
          else Inl IndexError
      | _ \<Rightarrow> Inl IndexError)"

definition setitem_slice_from1 :: "'a ndarray \<Rightarrow> 'a ndarray \<Rightarrow> error + 'a ndarray" where
  "setitem_slice_from1 a src =
     (case shape a of
        n0 # n1 # ns \<Rightarrow>
          bind (assign_src (n0 # (n1 - 1) # ns) src)
            (\<lambda>g. Inr (build (shape a)
               (\<lambda>idx. if 1 \<le> idx ! 1 then g (hd idx # (idx ! 1 - 1) # drop 2 idx)
                       else elem a idx)))
      | _ \<Rightarrow> Inl IndexError)"

definition setitem_slice_slice_int ::
  "'a ndarray \<Rightarrow> nat \<Rightarrow> 'a ndarray \<Rightarrow> error + 'a ndarray" where
  "setitem_slice_slice_int a k src =
     (case shape a of
        n0 # n1 # n2 # ns \<Rightarrow>
          if k < n2
          then bind (assign_src (n0 # n1 # ns) src)
                 (\<lambda>g. Inr (build (shape a)
                    (\<lambda>idx. if idx ! 2 = k then g (take 2 idx @ drop 3 idx) else elem a idx)))
          else Inl IndexError
      | _ \<Rightarrow> Inl IndexError)"

subsection \<open>squeeze, transposition, sum, argmax, concatenate, dot\<close>

text \<open>\<open>a.squeeze()\<close> removes every axis of extent 1.\<close>

definition squeeze :: "'a ndarray \<Rightarrow> 'a ndarray" where
  "squeeze a = NDArray (filter (\<lambda>n. n \<noteq> 1) (shape a)) (data a)"

text \<open>\<open>a.T\<close> reverses the axes.\<close>

definition transpose_T :: "'a ndarray \<Rightarrow> 'a ndarray" where
  "transpose_T a = build (rev (shape a)) (\<lambda>idx. elem a (rev idx))"

text \<open>\<open>np.sum(a)\<close> with no axis: the sum of all elements, a scalar.\<close>

definition np_sum :: "real ndarray \<Rightarrow> real ndarray" where
  "np_sum a = scalar (sum_list (data a))"

text \<open>The first position of the largest element of a non-empty list.\<close>

fun argmax_list :: "real list \<Rightarrow> nat" where
  "argmax_list [] = 0"
| "argmax_list [x] = 0"
| "argmax_list (x # y # ys) =
     (let j = argmax_list (y # ys) in if (y # ys) ! j > x then Suc j else 0)"

text \<open>\<open>np.argmax(a, axis=1)\<close>\<close>

definition np_argmax_axis1 :: "real ndarray \<Rightarrow> error + nat ndarray" where
  "np_argmax_axis1 a =
     (case shape a of
        n0 # n1 # ns \<Rightarrow>
          if n1 = 0 then Inl ValueError
          else Inr (build (n0 # ns)
                 (\<lambda>idx. argmax_list (map (\<lambda>j. elem a (hd idx # j # tl idx)) [0..<n1])))
      | _ \<Rightarrow> Inl AxisError)"

text \<open>\<open>np.concatenate((a, b), axis=1)\<close>: all extents but the second must agree.\<close>

definition np_concatenate_axis1 :: "'a ndarray \<Rightarrow> 'a ndarray \<Rightarrow> error + 'a ndarray" where
  "np_concatenate_axis1 a b =
     (case (shape a, shape b) of
        (n0 # n1 # ns, m0 # m1 # ms) \<Rightarrow>
          if n0 = m0 \<and> ns = ms
          then Inr (build (n0 # (n1 + m1) # ns)
                 (\<lambda>idx. if idx ! 1 < n1 then elem a idx
                         else elem b (hd idx # (idx ! 1 - n1) # drop 2 idx)))
          else Inl ValueError
      | _ \<Rightarrow> if ndim a = ndim b \<and> 0 < ndim a then Inl AxisError else Inl ValueError)"

text \<open>
  \<open>np.dot(a, b)\<close> for a 2-dimensional \<open>a\<close>: the sum of products over the last axis of
  \<open>a\<close> and the second-to-last axis of \<open>b\<close> (the only axis of a 1-dimensional \<open>b\<close>; a
  0-dimensional \<open>b\<close> multiplies every element). The module calls it with the extended
  input \<open>X_ext\<close> only, which \<open>np.concatenate\<close> has made 2-dimensional; the last case,
  another rank of \<open>a\<close>, is never reached.
\<close>

definition np_dot :: "real ndarray \<Rightarrow> real ndarray \<Rightarrow> error + real ndarray" where
  "np_dot a b =
     (case shape a of
        [n, m] \<Rightarrow>
          (case rev (shape b) of
             [] \<Rightarrow> Inr (build [n, m] (\<lambda>idx. elem a idx * elem b []))
           | [m'] \<Rightarrow>
               if m = m'
               then Inr (build [n] (\<lambda>idx. \<Sum>l\<leftarrow>[0..<m]. elem a [hd idx, l] * elem b [l]))
               else Inl ValueError
           | p # m' # rs \<Rightarrow>
               if m = m'
               then Inr (build (n # rev rs @ [p])
                      (\<lambda>idx. \<Sum>l\<leftarrow>[0..<m].
                         elem a [hd idx, l] * elem b (butlast (tl idx) @ [l, last idx])))
               else Inl ValueError)
      | _ \<Rightarrow> Inl ValueError)"

text \<open>Elementwise application of a function, as in \<open>a ** 2\<close>.\<close>

definition np_map :: "('a \<Rightarrow> 'b) \<Rightarrow> 'a ndarray \<Rightarrow> 'b ndarray" where
  "np_map f a = NDArray (shape a) (map f (data a))"

section \<open>The module \<open>cwlm/gmm_regressor.py\<close>\<close>

subsection \<open>Names, printing and the scikit-learn collaborators\<close>

text \<open>
  The global names of the module: what its five import statements bind (\<open>np\<close>, \<open>solve\<close>,
  \<open>GMM\<close>, \<open>Ridge\<close>, \<open>r2_score\<close>) and its two definitions. There is no \<open>import sys\<close>,
  and \<open>sys\<close> is not a builtin: reading the name raises NameError before \<open>exit\<close> is
  looked up.
\<close>

definition module_globals :: "string list" where
  "module_globals =
     [''np'', ''solve'', ''GMM'', ''Ridge'', ''r2_score'',
      ''_estimate_regression_params_k'', ''GMMRegressor'']"

definition global_name :: "string \<Rightarrow> error + unit" where
  "global_name x = (if x \<in> set module_globals then Inr () else Inl (NameError x))"

text \<open>\<open>sys.exit(c)\<close>: the name \<open>sys\<close> is read, then SystemExit is raised.\<close>

definition sys_exit :: "int option \<Rightarrow> error + 'a" where
  "sys_exit c = bind (global_name ''sys'') (\<lambda>u. Inl (SystemExit c))"

text \<open>\<open>'{}'.format(n)\<close> for a sample count: the decimal digits.\<close>

fun str_nat :: "nat \<Rightarrow> string" where
  "str_nat n =
     (if n < 10 then [''0123456789'' ! n]
      else str_nat (n div 10) @ [''0123456789'' ! (n mod 10)])"

declare str_nat.simps [simp del]

text \<open>
  scikit-learn is not part of the repository; its three entry points are parameters.
  \<open>GMM_fit kw X\<close> is \<open>GMM(**kw).fit(X)\<close>: the fitted mixture or an exception. A fitted
  mixture has its prior weights \<open>weights_\<close> and the method \<open>predict_proba\<close>, which
  reads the mixture and does not change it. \<open>Ridge_fit alpha X y sample_weight\<close> is
  \<open>Ridge(alpha=alpha).fit(X, y, sample_weight=sample_weight)\<close> and returns
  \<open>(intercept_, coef_)\<close>. \<open>r2_score y targets\<close> is given whatever \<open>predict\<close> returned,
  also \<open>None\<close>.
\<close>

record GaussianMixture =
  weights_' :: "real ndarray"
  predict_proba :: "real ndarray \<Rightarrow> error + real ndarray"

text \<open>
  The keyword arguments of GaussianMixture the module can set. The constructor's own
  default for \<open>covariance_type\<close> is \<open>'full'\<close>.
\<close>

record gmm_kwargs =
  kw_n_components :: nat
  kw_covariance_type :: string
  kw_n_init :: nat
  kw_random_state :: "int option"

record sklearn =
  GMM_fit :: "gmm_kwargs \<Rightarrow> real ndarray \<Rightarrow> error + GaussianMixture"
  Ridge_fit ::
    "real \<Rightarrow> real ndarray \<Rightarrow> real ndarray \<Rightarrow> real ndarray \<Rightarrow> error + (real ndarray \<times> real ndarray)"
  r2_score :: "real ndarray \<Rightarrow> real ndarray option \<Rightarrow> error + real"

text \<open>\<open>np.finfo(float).eps\<close> for 64-bit floats.\<close>

definition finfo_eps :: real where
  "finfo_eps = 1 / 2 ^ 52"

subsection \<open>\<open>_estimate_regression_params_k\<close> (lines 13 to 52)\<close>

text \<open>
  The weights and the precision of one component. The names \<open>intercept\<close> and \<open>coef\<close>
  are \<open>solver.intercept_\<close> and \<open>solver.coef_\<close>. Where the sum in the denominator of the
  precision is 0, numpy warns and gives an infinity or NaN; the reals have neither, so
  the value of the model there means nothing, and nothing is concluded from it.
\<close>

definition estimate_regression_params_k ::
  "sklearn \<Rightarrow> real ndarray \<Rightarrow> real ndarray \<Rightarrow> real ndarray \<Rightarrow> real \<Rightarrow> real ndarray
   \<Rightarrow> error + (real ndarray \<times> real ndarray)" where
  "estimate_regression_params_k sk X y resp_k alpha weight_k =
     (case shape X of
        [n, d] \<Rightarrow>
          (case shape y of
             [n_y, t] \<Rightarrow>
               bind (np_concatenate_axis1 (np_ones [n, 1]) X) (\<lambda>X_ext.
               bind (np_binop (\<lambda>a b. a + b) resp_k (scalar (10 * finfo_eps))) (\<lambda>sample_weight.
               bind (Ridge_fit sk alpha X y sample_weight) (\<lambda>(intercept, coef).
               bind (setitem_slice_int (np_empty [t, d + 1]) 0 intercept) (\<lambda>rw0.
               bind (setitem_slice_from1 rw0 coef) (\<lambda>reg_weights_k.
               bind (np_dot X_ext (transpose_T reg_weights_k)) (\<lambda>means.
               bind (np_binop (\<lambda>a b. a - b) y means) (\<lambda>diff.
               bind (getitem_slice_newaxis resp_k) (\<lambda>resp_col.
               bind (np_binop (\<lambda>a b. a * b) resp_col (np_map (\<lambda>e. e ^ 2) diff)) (\<lambda>werr.
               bind (np_binop (\<lambda>a b. a * b) (scalar (real n)) weight_k) (\<lambda>nw.
               bind (np_binop (\<lambda>a b. a / b) nw (np_sum werr)) (\<lambda>reg_precisions_k.
               Inr (reg_weights_k, reg_precisions_k))))))))))))
           | _ \<Rightarrow> Inl ValueError)
      | _ \<Rightarrow> Inl ValueError)"

subsection \<open>The class \<open>GMMRegressor\<close>\<close>

text \<open>
  An instance: the six attributes \<open>__init__\<close> sets, and the attributes \<open>fit\<close> and
  \<open>predict\<close> add. An attribute that has not been assigned yet is \<open>None\<close> here (reading
  it raises AttributeError). The underscore that ends an attribute's name is written
  \<open>_'\<close>: \<open>is_fitted_'\<close> is \<open>self.is_fitted_\<close>.
\<close>

record GMMRegressor =
  n_components :: nat
  alpha :: real
  covariance_type :: string
  n_init :: nat
  verbose :: int
  random_state :: "int option"
  is_fitted_' :: "bool option"
  n_tasks_' :: "nat option"
  n_input_dims_' :: "nat option"
  resp_tr_' :: "real ndarray option"
  labels_tr_' :: "nat ndarray option"
  reg_weights_' :: "real ndarray option"
  reg_precisions_' :: "real ndarray option"
  gmm_' :: "GaussianMixture option"
  resp_tst_' :: "real ndarray option"
  labels_tst_' :: "nat ndarray option"

definition init :: "nat \<Rightarrow> real \<Rightarrow> nat \<Rightarrow> string \<Rightarrow> int \<Rightarrow> int option \<Rightarrow> GMMRegressor" where
  "init n_components' alpha' n_init' covariance_type' verbose' random_state' =
     \<lparr>n_components = n_components', alpha = alpha', covariance_type = covariance_type',
      n_init = n_init', verbose = verbose', random_state = random_state',
      is_fitted_' = None, n_tasks_' = None, n_input_dims_' = None, resp_tr_' = None,
      labels_tr_' = None, reg_weights_' = None, reg_precisions_' = None, gmm_' = None,
      resp_tst_' = None, labels_tst_' = None\<rparr>"

definition attr :: "string \<Rightarrow> 'a option \<Rightarrow> error + 'a" where
  "attr name v = (case v of None \<Rightarrow> Inl (AttributeError name) | Some x \<Rightarrow> Inr x)"

text \<open>\<open>_check_data\<close> (lines 121 to 157): the result or the exception, and the lines printed.\<close>

definition check_data ::
  "real ndarray \<Rightarrow> real ndarray
   \<Rightarrow> (error + nat \<times> nat \<times> nat \<times> real ndarray \<times> real ndarray) \<times> string list" where
  "check_data X y0 =
     (case (if ndim y0 = 1 then getitem_slice_newaxis y0 else Inr y0) of
        Inl e \<Rightarrow> (Inl e, [])
      | Inr y \<Rightarrow>
          (case shape X of
             [n_x, d] \<Rightarrow>
               (case shape y of
                  [n_y, t] \<Rightarrow>
                    if n_x = n_y then (Inr (t, n_x, d, X, y), [])
                    else (sys_exit None,
                          [''Data size error. Number of samples in X and y must match:'',
                           ''X n_samples = '' @ str_nat n_x @ '', y n_samples = '' @ str_nat n_y,
                           ''Exiting.''])
                | _ \<Rightarrow> (Inl ValueError, []))
           | _ \<Rightarrow> (Inl ValueError, [])))"

text \<open>
  One pass of the loop of \<open>fit\<close> (lines 176 to 179) for the component \<open>k\<close>, on the
  local arrays \<open>reg_weights\<close> and \<open>reg_precisions\<close>, and the loop over the remaining
  components.
\<close>

definition fit_step ::
  "sklearn \<Rightarrow> real ndarray \<Rightarrow> real ndarray \<Rightarrow> real ndarray \<Rightarrow> real \<Rightarrow> GaussianMixture
   \<Rightarrow> nat \<Rightarrow> real ndarray \<times> real ndarray \<Rightarrow> error + (real ndarray \<times> real ndarray)" where
  "fit_step sk X y resp_tr alpha' gmm k acc =
     bind (getitem_slice_int resp_tr k) (\<lambda>resp_k.
     bind (getitem_int (weights_' gmm) k) (\<lambda>weight_k.
     bind (estimate_regression_params_k sk X y resp_k alpha' weight_k)
       (\<lambda>(reg_weights_k, reg_precisions_k).
     bind (setitem_slice_slice_int (fst acc) k reg_weights_k) (\<lambda>reg_weights.
     bind (setitem_slice_int (snd acc) k reg_precisions_k) (\<lambda>reg_precisions.
     Inr (reg_weights, reg_precisions))))))"

fun fit_loop ::
  "sklearn \<Rightarrow> real ndarray \<Rightarrow> real ndarray \<Rightarrow> real ndarray \<Rightarrow> real \<Rightarrow> GaussianMixture
   \<Rightarrow> nat list \<Rightarrow> real ndarray \<times> real ndarray \<Rightarrow> error + (real ndarray \<times> real ndarray)" where
  "fit_loop sk X y resp_tr alpha' gmm [] acc = Inr acc"
| "fit_loop sk X y resp_tr alpha' gmm (k # ks) acc =
     bind (fit_step sk X y resp_tr alpha' gmm k acc) (fit_loop sk X y resp_tr alpha' gmm ks)"

text \<open>
  The keyword arguments of the call \<open>GMM(n_components=self.n_components,
  n_init=self.n_init, random_state=self.random_state)\<close> (lines 165 to 167): the three
  that are passed, and the constructor's default for \<open>covariance_type\<close>, which is not.
\<close>

definition GMM_call :: "GMMRegressor \<Rightarrow> gmm_kwargs" where
  "GMM_call self =
     \<lparr>kw_n_components = n_components self, kw_covariance_type = ''full'',
      kw_n_init = n_init self, kw_random_state = random_state self\<rparr>"

text \<open>
  Lines 164 to 179 of \<open>fit\<close>: everything between the data check and the assignments to
  \<open>self\<close>.
\<close>

definition fit_arrays ::
  "sklearn \<Rightarrow> GMMRegressor \<Rightarrow> nat \<Rightarrow> nat \<Rightarrow> real ndarray \<Rightarrow> real ndarray
   \<Rightarrow> error + (GaussianMixture \<times> real ndarray \<times> nat ndarray \<times> real ndarray \<times> real ndarray)" where
  "fit_arrays sk self t d X y =
     bind (GMM_fit sk (GMM_call self) X) (\<lambda>gmm.
     bind (predict_proba gmm X) (\<lambda>resp_tr.
     bind (np_argmax_axis1 resp_tr) (\<lambda>labels_tr.
     bind (fit_loop sk X y resp_tr (alpha self) gmm [0..<n_components self]
             (np_empty [t, d + 1, n_components self], np_zeros [t, n_components self]))
       (\<lambda>(reg_weights, reg_precisions).
     Inr (gmm, resp_tr, labels_tr, reg_weights, reg_precisions)))))"

text \<open>\<open>fit\<close> (lines 159 to 188): the outcome, the lines printed and the instance afterwards.\<close>

definition fit ::
  "sklearn \<Rightarrow> GMMRegressor \<Rightarrow> real ndarray \<Rightarrow> real ndarray
   \<Rightarrow> (error + unit) \<times> string list \<times> GMMRegressor" where
  "fit sk self X0 y0 =
     (let self1 = self\<lparr>is_fitted_' := Some False\<rparr> in
      case check_data X0 y0 of
        (Inl e, out) \<Rightarrow> (Inl e, out, self1)
      | (Inr (t, n, d, X, y), out) \<Rightarrow>
          (case fit_arrays sk self1 t d X y of
             Inl e \<Rightarrow> (Inl e, out, self1)
           | Inr (gmm, resp_tr, labels_tr, reg_weights, reg_precisions) \<Rightarrow>
               (Inr (), out,
                self1\<lparr>n_tasks_' := Some t, n_input_dims_' := Some d,
                       resp_tr_' := Some resp_tr, labels_tr_' := Some labels_tr,
                       reg_weights_' := Some (squeeze reg_weights),
                       reg_precisions_' := Some (squeeze reg_precisions),
                       gmm_' := Some gmm, is_fitted_' := Some True\<rparr>)))"

text \<open>
  One pass of the loop of \<open>predict\<close> (lines 213 to 215) for the component \<open>k\<close>, and
  the loop over the remaining components.
\<close>

definition predict_step ::
  "real ndarray \<Rightarrow> real ndarray \<Rightarrow> real ndarray \<Rightarrow> nat \<Rightarrow> real ndarray \<Rightarrow> error + real ndarray" where
  "predict_step reg_weights resp_tst X_ext k targets =
     bind (getitem_slice_slice_int reg_weights k) (\<lambda>w_k.
     bind (np_dot X_ext (transpose_T w_k)) (\<lambda>dot_prod.
     bind (getitem_slice_int resp_tst k) (\<lambda>resp_k.
     bind (getitem_slice_newaxis resp_k) (\<lambda>resp_col.
     bind (np_binop (\<lambda>a b. a * b) resp_col dot_prod) (\<lambda>weighted.
     np_iadd targets weighted)))))"

fun predict_loop ::
  "real ndarray \<Rightarrow> real ndarray \<Rightarrow> real ndarray \<Rightarrow> nat list \<Rightarrow> real ndarray
   \<Rightarrow> error + real ndarray" where
  "predict_loop reg_weights resp_tst X_ext [] targets = Inr targets"
| "predict_loop reg_weights resp_tst X_ext (k # ks) targets =
     bind (predict_step reg_weights resp_tst X_ext k targets)
       (predict_loop reg_weights resp_tst X_ext ks)"

text \<open>\<open>self.gmm_.predict_proba(X)\<close> (line 207)\<close>

definition gmm_predict_proba :: "GMMRegressor \<Rightarrow> real ndarray \<Rightarrow> error + real ndarray" where
  "gmm_predict_proba self X = bind (attr ''gmm_'' (gmm_' self)) (\<lambda>gmm. predict_proba gmm X)"

text \<open>Lines 200 to 215 of \<open>predict\<close>, for an input of \<open>n\<close> rows.\<close>

definition predict_targets ::
  "GMMRegressor \<Rightarrow> nat \<Rightarrow> real ndarray \<Rightarrow> error + (real ndarray \<times> nat ndarray \<times> real ndarray)" where
  "predict_targets self n X =
     bind (attr ''n_tasks_'' (n_tasks_' self)) (\<lambda>t.
     bind (attr ''reg_weights_'' (reg_weights_' self)) (\<lambda>rw.
     bind (if t = 1 then getitem_newaxis_slice_slice rw else Inr rw) (\<lambda>reg_weights.
     bind (gmm_predict_proba self X) (\<lambda>resp_tst.
     bind (np_argmax_axis1 resp_tst) (\<lambda>labels_tst.
     bind (np_concatenate_axis1 (np_ones [n, 1]) X) (\<lambda>X_ext.
     bind (predict_loop reg_weights resp_tst X_ext [0..<n_components self] (np_zeros [n, t]))
       (\<lambda>targets.
     Inr (resp_tst, labels_tst, targets))))))))"

text \<open>
  \<open>predict\<close> (lines 190 to 220): what it returns (\<open>None\<close> is Python's \<open>None\<close>) or raises,
  the lines printed and the instance afterwards.
\<close>

definition predict ::
  "GMMRegressor \<Rightarrow> real ndarray \<Rightarrow> (error + real ndarray option) \<times> string list \<times> GMMRegressor" where
  "predict self X =
     (case is_fitted_' self of
        None \<Rightarrow> (Inl (AttributeError ''is_fitted_''), [], self)
      | Some fitted \<Rightarrow>
          if \<not> fitted then (Inr None, [''Model isn't fitted.''], self)
          else
            (case shape X of
               [n, d] \<Rightarrow>
                 (case n_input_dims_' self of
                    None \<Rightarrow> (Inl (AttributeError ''n_input_dims_''), [], self)
                  | Some nd \<Rightarrow>
                      if d \<noteq> nd
                      then (sys_exit (Some 0), [''Incorrect dimensions for input data.''], self)
                      else
                        (case predict_targets self n X of
                           Inl e \<Rightarrow> (Inl e, [], self)
                         | Inr (resp_tst, labels_tst, targets) \<Rightarrow>
                             (Inr (Some targets), [],
                              self\<lparr>resp_tst_' := Some resp_tst, labels_tst_' := Some labels_tst\<rparr>)))
             | _ \<Rightarrow> (Inl ValueError, [], self)))"

text \<open>\<open>score\<close> (lines 222 to 225)\<close>

definition score ::
  "sklearn \<Rightarrow> GMMRegressor \<Rightarrow> real ndarray \<Rightarrow> real ndarray
   \<Rightarrow> (error + real) \<times> string list \<times> GMMRegressor" where
  "score sk self X y =
     (case predict self X of
        (Inl e, out, self') \<Rightarrow> (Inl e, out, self')
      | (Inr targets, out, self') \<Rightarrow> (r2_score sk y targets, out, self'))"

section \<open>Fitted models, the precision as specified, and example data\<close>

text \<open>
  \<open>self\<close> is the instance \<open>self0\<close> after a call \<open>fit(X, y)\<close> that returned without
  an exception.
\<close>

definition fitted_by ::
  "sklearn \<Rightarrow> GMMRegressor \<Rightarrow> real ndarray \<Rightarrow> real ndarray \<Rightarrow> GMMRegressor \<Rightarrow> bool" where
  "fitted_by sk self0 X y self =
     (fst (fit sk self0 X y) = Inr () \<and> self = snd (snd (fit sk self0 X y)))"

text \<open>
  The precision of one cluster for one task as the specification words it: the sample
  count times the cluster's prior weight, over the sum, over the samples, of the
  responsibility times the squared residual of that task.
\<close>

definition spec_precision :: "nat \<Rightarrow> real \<Rightarrow> real list \<Rightarrow> real list \<Rightarrow> real" where
  "spec_precision n w resp e = real n * w / (\<Sum>(r, e_i)\<leftarrow>zip resp e. r * e_i ^ 2)"

text \<open>
  Example data: three samples of one feature, \<open>X = [[0], [1], [2]]\<close>, with the targets
  \<open>y = [0, 1, 0]\<close> (one task, given 1-dimensional), \<open>[[0, 0], [1, 2], [0, 0]]\<close> (two
  tasks) and a target vector of two samples only.
\<close>

definition X3 :: "real ndarray" where
  "X3 = NDArray [3, 1] [0, 1, 2]"

definition y3 :: "real ndarray" where
  "y3 = NDArray [3] [0, 1, 0]"

definition y32 :: "real ndarray" where
  "y32 = NDArray [3, 2] [0, 0, 1, 2, 0, 0]"

definition y2 :: "real ndarray" where
  "y2 = NDArray [2] [0, 1]"

text \<open>
  Collaborators for the examples. The mixture gives every sample the same
  responsibility \<open>1/K\<close> for each of its \<open>K\<close> components and the prior weights \<open>1/K\<close>
  (for \<open>K = 1\<close>: all responsibilities 1, as any one-component mixture has). The ridge
  solver returns the column means of \<open>y\<close> as intercepts and zero coefficients: for the
  example data, where all sample weights are equal and \<open>X\<close> is uncorrelated with every
  column of \<open>y\<close>, that is the exact minimiser for every \<open>alpha\<close>. \<open>r2_score\<close> is called
  by the examples with \<open>None\<close> only, which scikit-learn rejects.
\<close>

definition gmm_demo :: "nat \<Rightarrow> GaussianMixture" where
  "gmm_demo K =
     \<lparr>weights_' = build [K] (\<lambda>idx. 1 / real K),
      predict_proba =
        (\<lambda>X. case shape X of
                [n, d] \<Rightarrow> Inr (build [n, K] (\<lambda>idx. 1 / real K))
              | _ \<Rightarrow> Inl (ExternalError ''ValueError''))\<rparr>"

definition ridge_demo ::
  "real \<Rightarrow> real ndarray \<Rightarrow> real ndarray \<Rightarrow> real ndarray \<Rightarrow> error + (real ndarray \<times> real ndarray)" where
  "ridge_demo a X y sample_weight =
     (case (shape X, shape y) of
        ([n, d], [n', t]) \<Rightarrow>
          Inr (build [t] (\<lambda>idx. (\<Sum>i\<leftarrow>[0..<n']. elem y [i, hd idx]) / real n'),
               build [t, d] (\<lambda>idx. 0))
      | _ \<Rightarrow> Inl (ExternalError ''ValueError''))"

definition sk_demo :: sklearn where
  "sk_demo =
     \<lparr>GMM_fit = (\<lambda>kw X. Inr (gmm_demo (kw_n_components kw))),
      Ridge_fit = ridge_demo,
      r2_score = (\<lambda>y targets. Inl (ExternalError ''TypeError''))\<rparr>"

text \<open>
  \<open>GMMRegressor(n_components=K, alpha=1, n_init=10, covariance_type='diag')\<close>, and
  the instance after \<open>fit(X3, y)\<close>.
\<close>

definition regressor :: "nat \<Rightarrow> GMMRegressor" where
  "regressor K = init K 1 10 ''diag'' 0 None"

definition fitted_demo :: "nat \<Rightarrow> real ndarray \<Rightarrow> GMMRegressor" where
  "fitted_demo K y = snd (snd (fit sk_demo (regressor K) X3 y))"

section \<open>Basic facts about arrays\<close>

lemma length_indices: "length (indices s) = prod_list s"
proof (induction s)
  case Nil
  show ?case by simp
next
  case (Cons n ns)
  have "length (concat (map (\<lambda>i. map (\<lambda>js. i # js) (indices ns)) [0..<n]))
        = sum_list (map (\<lambda>i. prod_list ns) [0..<n])"
    by (simp add: length_concat comp_def Cons.IH)
  also have "\<dots> = n * prod_list ns"
    by (simp add: sum_list_triv)
  finally show ?case by simp
qed

lemma shape_build [simp]: "shape (build s f) = s"
  by (simp add: build_def)

lemma well_formed_build [simp]: "well_formed (build s f)"
  by (simp add: build_def well_formed_def length_indices)

lemma bind_Inr_iff: "bind m f = Inr y \<longleftrightarrow> (\<exists>x. m = Inr x \<and> f x = Inr y)"
  by (cases m) (simp_all add: bind_def)

lemma bind_Inl [simp]: "bind (Inl e) f = Inl e"
  by (simp add: bind_def)

lemma bind_Inr [simp]: "bind (Inr x) f = f x"
  by (simp add: bind_def)

lemma shape_transpose_T [simp]: "shape (transpose_T a) = rev (shape a)"
  by (simp add: transpose_T_def)

lemma broadcast_col: "broadcast_shapes [n, 1] [n, t] = Some [n, t]"
  by (simp add: broadcast_shapes_def)

lemma broadcast_same2: "broadcast_shapes [n, t] [n, t] = Some [n, t]"
  by (simp add: broadcast_shapes_def)

lemma getitem_slice_slice_int_3d:
  "shape W = [t, d1, K] \<Longrightarrow> k < K \<Longrightarrow>
   getitem_slice_slice_int W k = Inr (build [t, d1] (\<lambda>idx. elem W (take 2 idx @ k # drop 2 idx)))"
  by (simp add: getitem_slice_slice_int_def)

lemma getitem_slice_int_2d:
  "shape R = [n, K] \<Longrightarrow> k < K \<Longrightarrow>
   getitem_slice_int R k = Inr (build [n] (\<lambda>idx. elem R (hd idx # k # tl idx)))"
  by (simp add: getitem_slice_int_def)

lemma getitem_slice_newaxis_1d:
  "shape r = [n] \<Longrightarrow> getitem_slice_newaxis r = Inr (NDArray [n, 1] (data r))"
  by (simp add: getitem_slice_newaxis_def)

lemma np_dot_2d:
  "shape a = [n, m] \<Longrightarrow> shape b = [m, p] \<Longrightarrow>
   np_dot a b = Inr (build [n, p]
      (\<lambda>idx. \<Sum>l\<leftarrow>[0..<m]. elem a [hd idx, l] * elem b (butlast (tl idx) @ [l, last idx])))"
  by (simp add: np_dot_def)

lemma np_binop_col:
  "shape a = [n, 1] \<Longrightarrow> shape b = [n, t] \<Longrightarrow>
   np_binop f a b = Inr (build [n, t]
      (\<lambda>idx. f (elem a (bc_index [n, 1] idx)) (elem b (bc_index [n, t] idx))))"
  using broadcast_col[of n t] by (simp add: np_binop_def)

lemma np_iadd_same:
  "shape a = [n, t] \<Longrightarrow> shape b = [n, t] \<Longrightarrow>
   np_iadd a b = Inr (build [n, t]
      (\<lambda>idx. elem a (bc_index [n, t] idx) + elem b (bc_index [n, t] idx)))"
  using broadcast_same2[of n t] by (simp add: np_iadd_def np_binop_def)

lemma setitem_slice_int_shape:
  "setitem_slice_int a k src = Inr b \<Longrightarrow> shape b = shape a"
  by (auto simp: setitem_slice_int_def bind_Inr_iff split: list.splits if_splits)

lemma setitem_slice_slice_int_shape:
  "setitem_slice_slice_int a k src = Inr b \<Longrightarrow> shape b = shape a"
  by (auto simp: setitem_slice_slice_int_def bind_Inr_iff split: list.splits if_splits)

lemma concat_ones_shape:
  "shape X = [n, d] \<Longrightarrow>
   \<exists>E. np_concatenate_axis1 (np_ones [n, 1]) X = Inr E \<and> shape E = [n, d + 1]"
  by (simp add: np_concatenate_axis1_def np_ones_def)

lemma argmax_ok:
  "shape R = [n, K] \<Longrightarrow> 0 < K \<Longrightarrow> \<exists>L. np_argmax_axis1 R = Inr L"
  by (simp add: np_argmax_axis1_def)

section \<open>What \<open>sys.exit\<close> does in this module\<close>

lemma sys_exit_raises: "sys_exit c = Inl (NameError ''sys'')"
  by (simp add: sys_exit_def global_name_def module_globals_def)

section \<open>The state a successful \<open>fit\<close> leaves\<close>

lemma fit_step_shape:
  "fit_step sk X y resp_tr a gmm k acc = Inr acc' \<Longrightarrow>
   shape (fst acc') = shape (fst acc) \<and> shape (snd acc') = shape (snd acc)"
  by (auto simp: fit_step_def bind_Inr_iff
      dest: setitem_slice_int_shape setitem_slice_slice_int_shape)

lemma fit_loop_shape:
  "fit_loop sk X y resp_tr a gmm ks acc = Inr acc' \<Longrightarrow>
   shape (fst acc') = shape (fst acc) \<and> shape (snd acc') = shape (snd acc)"
proof (induction ks arbitrary: acc)
  case Nil
  then show ?case by simp
next
  case (Cons k ks)
  from Cons.prems obtain acc1 where
    s: "fit_step sk X y resp_tr a gmm k acc = Inr acc1" and
    l: "fit_loop sk X y resp_tr a gmm ks acc1 = Inr acc'"
    by (auto simp: bind_Inr_iff)
  from Cons.IH[OF l] fit_step_shape[OF s] show ?case by simp
qed

lemma check_data_Inr:
  "fst (check_data X y0) = Inr (t, n, d, X', y) \<Longrightarrow>
   X' = X \<and> shape X = [n, d] \<and> shape y = [n, t] \<and> snd (check_data X y0) = [] \<and>
   (shape y0 = [n] \<and> t = 1 \<or> shape y0 = [n, t])"
  by (auto simp: check_data_def sys_exit_raises ndim_def getitem_slice_newaxis_def
      split: sum.splits list.splits if_splits)

text \<open>
  After a successful \<open>fit\<close> the instance holds the flag, the two dimensions, and the
  weight tensor of shape \<open>(t, d + 1, K)\<close> with every axis of extent 1 squeezed away.
\<close>

lemma fitted_by_state:
  assumes "fitted_by sk self0 X y self"
  shows "\<exists>n d t g R L W P.
     shape X = [n, d] \<and> (shape y = [n] \<and> t = 1 \<or> shape y = [n, t]) \<and>
     shape W = [t, d + 1, n_components self0] \<and>
     shape P = [t, n_components self0] \<and>
     self = self0\<lparr>is_fitted_' := Some True, n_tasks_' := Some t, n_input_dims_' := Some d,
                  resp_tr_' := Some R, labels_tr_' := Some L,
                  reg_weights_' := Some (squeeze W), reg_precisions_' := Some (squeeze P),
                  gmm_' := Some g\<rparr>"
proof -
  from assms have ok: "fst (fit sk self0 X y) = Inr ()"
    and self: "self = snd (snd (fit sk self0 X y))"
    by (simp_all add: fitted_by_def)
  obtain r out where cd: "check_data X y = (r, out)" by (cases "check_data X y")
  with ok obtain t n d X' y' where r: "r = Inr (t, n, d, X', y')"
    by (cases r) (auto simp: fit_def Let_def)
  from cd r check_data_Inr[of X y t n d X' y'] have X': "X' = X" and sX: "shape X = [n, d]"
    and sy: "shape y = [n] \<and> t = 1 \<or> shape y = [n, t]"
    by simp_all
  let ?s1 = "self0\<lparr>is_fitted_' := Some False\<rparr>"
  from ok cd r obtain g R L W P where
    fa: "fit_arrays sk ?s1 t d X' y' = Inr (g, R, L, W, P)"
    by (cases "fit_arrays sk ?s1 t d X' y'") (auto simp: fit_def Let_def)
  from fa have "shape W = [t, d + 1, n_components self0] \<and> shape P = [t, n_components self0]"
    by (auto simp: fit_arrays_def bind_Inr_iff np_empty_def np_zeros_def dest!: fit_loop_shape)
  moreover from self cd r fa have
    "self = self0\<lparr>is_fitted_' := Some True, n_tasks_' := Some t, n_input_dims_' := Some d,
                  resp_tr_' := Some R, labels_tr_' := Some L,
                  reg_weights_' := Some (squeeze W), reg_precisions_' := Some (squeeze P),
                  gmm_' := Some g\<rparr>"
    by (simp add: fit_def Let_def)
  ultimately show ?thesis using sX sy by blast
qed

text \<open>
  With at least one feature and at least two components, undoing the squeeze for
  \<open>n_tasks_ = 1\<close> (lines 201 to 204) gives back the tensor \<open>fit\<close> computed.
\<close>

lemma reg_weights_restored:
  assumes "shape W = [t, d + 1, K]" "1 \<le> d" "2 \<le> K"
  shows "(if t = 1 then getitem_newaxis_slice_slice (squeeze W) else Inr (squeeze W)) = Inr W"
proof (cases "t = 1")
  case True
  with assms have "squeeze W = NDArray [d + 1, K] (data W)"
    by (simp add: squeeze_def)
  with True assms(1) show ?thesis
    by (cases W) (simp add: getitem_newaxis_slice_slice_def ndim_def)
next
  case False
  with assms have "squeeze W = W"
    by (cases W) (simp add: squeeze_def)
  with False show ?thesis by simp
qed

section \<open>The shape of what the loop of \<open>predict\<close> accumulates\<close>

lemma predict_step_shape:
  assumes "shape W = [t, d1, K]" "shape R = [n, K]" "shape X_ext = [n, d1]"
    "shape T = [n, t]" "k < K"
  shows "\<exists>T'. predict_step W R X_ext k T = Inr T' \<and> shape T' = [n, t]"
proof -
  let ?w = "build [t, d1] (\<lambda>idx. elem W (take 2 idx @ k # drop 2 idx))"
  have "shape (transpose_T ?w) = [d1, t]" by simp
  from np_dot_2d[OF assms(3) this] obtain D where
    D: "np_dot X_ext (transpose_T ?w) = Inr D" "shape D = [n, t]" by simp
  let ?r = "build [n] (\<lambda>idx. elem R (hd idx # k # tl idx))"
  have c: "getitem_slice_newaxis ?r = Inr (NDArray [n, 1] (data ?r))"
    by (rule getitem_slice_newaxis_1d) simp
  have "shape (NDArray [n, 1] (data ?r)) = [n, 1]" by simp
  from np_binop_col[OF this D(2)] obtain M where
    M: "np_binop (\<lambda>a b. a * b) (NDArray [n, 1] (data ?r)) D = Inr M" "shape M = [n, t]"
    by simp
  from np_iadd_same[OF assms(4) M(2)] obtain T' where
    T': "np_iadd T M = Inr T'" "shape T' = [n, t]" by simp
  show ?thesis
    unfolding predict_step_def
    by (simp only: getitem_slice_slice_int_3d[OF assms(1,5)] bind_Inr D(1)
        getitem_slice_int_2d[OF assms(2,5)] c M(1) T'(1)) (simp add: T'(2))
qed

lemma predict_loop_shape:
  assumes "shape W = [t, d1, K]" "shape R = [n, K]" "shape X_ext = [n, d1]"
    "shape T = [n, t]" "list_all (\<lambda>k. k < K) ks"
  shows "\<exists>T'. predict_loop W R X_ext ks T = Inr T' \<and> shape T' = [n, t]"
  using assms(4,5)
proof (induction ks arbitrary: T)
  case Nil
  then show ?case by simp
next
  case (Cons k ks)
  from Cons.prems have "k < K" by simp
  from predict_step_shape[OF assms(1-3) Cons.prems(1) this] obtain T1 where
    s: "predict_step W R X_ext k T = Inr T1" and sh: "shape T1 = [n, t]" by blast
  from Cons.IH[OF sh] Cons.prems(2) obtain T' where
    "predict_loop W R X_ext ks T1 = Inr T'" "shape T' = [n, t]" by auto
  with s show ?case by simp
qed

lemma list_all_upt: "list_all (\<lambda>k. k < K) [0..<K]"
  by (simp add: list_all_iff)

section \<open>The example instances\<close>

lemma fitted_demo_fitted_by:
  "fst (fit sk_demo (regressor K) X3 y) = Inr () \<Longrightarrow>
   fitted_by sk_demo (regressor K) X3 y (fitted_demo K y)"
  by (simp add: fitted_by_def fitted_demo_def)

lemma fit_demo_2_y3: "fst (fit sk_demo (regressor 2) X3 y3) = Inr ()"
  by code_simp

lemma fit_demo_1_y3: "fst (fit sk_demo (regressor 1) X3 y3) = Inr ()"
  by code_simp

section \<open>The outcomes of \<open>predict\<close>\<close>

lemma predict_success:
  assumes "is_fitted_' self = Some True" "shape X = [n, d]" "n_input_dims_' self = Some d"
    "predict_targets self n X = Inr (R, L, T)"
  shows "predict self X =
           (Inr (Some T), [], self\<lparr>resp_tst_' := Some R, labels_tst_' := Some L\<rparr>)"
  using assms by (simp add: predict_def)

lemma predict_Some:
  assumes "fst (predict self X) = Inr (Some T)"
  shows "\<exists>n d R L. is_fitted_' self = Some True \<and> shape X = [n, d] \<and>
           n_input_dims_' self = Some d \<and> predict_targets self n X = Inr (R, L, T)"
proof -
  from assms obtain f where f: "is_fitted_' self = Some f"
    by (cases "is_fitted_' self") (simp_all add: predict_def)
  with assms have t: "f" by (cases f) (simp_all add: predict_def)
  from assms f t obtain n d where X: "shape X = [n, d]"
    by (auto simp: predict_def split: list.splits)
  from assms f t X obtain nd where nd: "n_input_dims_' self = Some nd"
    by (cases "n_input_dims_' self") (simp_all add: predict_def)
  from assms f t X nd have dd: "d = nd"
    by (cases "d = nd") (simp_all add: predict_def sys_exit_raises)
  from assms f t X nd dd obtain R L where "predict_targets self n X = Inr (R, L, T)"
    by (cases "predict_targets self n X") (auto simp: predict_def)
  with f t X nd dd show ?thesis by simp
qed

lemma predict_unchanged:
  assumes "\<And>T. fst (predict self X) \<noteq> Inr (Some T)"
  shows "snd (snd (predict self X)) = self"
proof (rule ccontr)
  assume c: "snd (snd (predict self X)) \<noteq> self"
  then obtain f where f: "is_fitted_' self = Some f"
    by (cases "is_fitted_' self") (simp_all add: predict_def)
  with c have t: "f" by (cases f) (simp_all add: predict_def)
  from c f t obtain n d where X: "shape X = [n, d]"
    by (auto simp: predict_def split: list.splits)
  from c f t X obtain nd where nd: "n_input_dims_' self = Some nd"
    by (cases "n_input_dims_' self") (simp_all add: predict_def)
  from c f t X nd have dd: "d = nd"
    by (cases "d = nd") (simp_all add: predict_def)
  from c f t X nd dd obtain R L T where pt: "predict_targets self n X = Inr (R, L, T)"
    by (cases "predict_targets self n X") (auto simp: predict_def)
  from predict_success[OF _ X _ pt] f t nd dd assms[of T] show False by simp
qed

text \<open>Lines 200 to 215 of \<open>predict\<close> do not read the two caches.\<close>

lemma predict_targets_caches:
  "predict_targets (self\<lparr>resp_tst_' := a, labels_tst_' := b\<rparr>) n X = predict_targets self n X"
  by (simp add: predict_targets_def gmm_predict_proba_def)

section \<open>Reading the elements of a built array\<close>

lemma nth_concat_uniform:
  "list_all (\<lambda>xs. length xs = p) xss \<Longrightarrow> i < length xss \<Longrightarrow> j < p \<Longrightarrow>
   concat xss ! (i * p + j) = xss ! i ! j"
proof (induction xss arbitrary: i)
  case Nil
  then show ?case by simp
next
  case (Cons xs xss)
  show ?case
  proof (cases i)
    case 0
    with Cons.prems show ?thesis by (simp add: nth_append)
  next
    case (Suc i')
    with Cons.prems have "concat xss ! (i' * p + j) = xss ! i' ! j"
      by (intro Cons.IH) simp_all
    with Suc Cons.prems show ?thesis by (simp add: nth_append)
  qed
qed

lemma flat_index_less: "valid_index s idx \<Longrightarrow> flat_index s idx < prod_list s"
proof (induction s idx rule: valid_index.induct)
  case (2 n ns i js)
  then have "i < n" and "flat_index ns js < prod_list ns" by simp_all
  then have "i * prod_list ns + flat_index ns js < Suc i * prod_list ns" by simp
  also have "\<dots> \<le> n * prod_list ns" using \<open>i < n\<close> by (intro mult_le_mono1) simp
  finally show ?case by simp
qed simp_all

lemma indices_nth: "valid_index s idx \<Longrightarrow> indices s ! flat_index s idx = idx"
proof (induction s idx rule: valid_index.induct)
  case (2 n ns i js)
  then have i: "i < n" and v: "valid_index ns js" by simp_all
  let ?xss = "map (\<lambda>i. map (\<lambda>js. i # js) (indices ns)) [0..<n]"
  have "list_all (\<lambda>xs. length xs = prod_list ns) ?xss"
    by (simp add: list_all_iff length_indices)
  from nth_concat_uniform[OF this, of i "flat_index ns js"] i flat_index_less[OF v]
  have "concat ?xss ! (i * prod_list ns + flat_index ns js) = ?xss ! i ! flat_index ns js"
    by simp
  also have "\<dots> = i # indices ns ! flat_index ns js"
    using i flat_index_less[OF v] by (simp add: length_indices)
  also have "\<dots> = i # js" using "2.IH" v by simp
  finally show ?case by simp
qed simp_all

lemma set_indices: "idx \<in> set (indices s) \<Longrightarrow> valid_index s idx"
  by (induction s arbitrary: idx) auto

lemma elem_build: "valid_index s idx \<Longrightarrow> elem (build s f) idx = f idx"
  by (simp add: elem_def build_def flat_index_less length_indices indices_nth)

lemma build_cong: "(\<And>idx. valid_index s idx \<Longrightarrow> f idx = g idx) \<Longrightarrow> build s f = build s g"
  by (simp add: build_def set_indices)

lemma valid_index_2d: "valid_index [n, t] idx \<longleftrightarrow> (\<exists>i j. idx = [i, j] \<and> i < n \<and> j < t)"
proof (cases idx)
  case Nil
  then show ?thesis by simp
next
  case (Cons i js)
  then show ?thesis
    by (cases js; cases "tl js") auto
qed

lemma sum_list_upt_cong:
  "(\<And>l. l < m \<Longrightarrow> f l = g l) \<Longrightarrow> (\<Sum>l\<leftarrow>[0..<m]. f l) = (\<Sum>l\<leftarrow>[0..<m]. g l :: real)"
  by (rule arg_cong[where f = sum_list]) simp


section \<open>What the loop of \<open>predict\<close> accumulates\<close>

text \<open>
  The contribution of the component \<open>k\<close> to the target of the sample \<open>i\<close> for the
  task \<open>j\<close>: the responsibility times the product of the extended row with the
  weights of the component.
\<close>

lemma predict_step_value:
  assumes W: "shape W = [t, d1, K]" and R: "shape R = [n, K]" and E: "shape E = [n, d1]"
    and k: "k < K"
  shows "predict_step W R E k (build [n, t] f) =
           Inr (build [n, t] (\<lambda>idx. f idx +
              elem R [idx ! 0, k] *
              (\<Sum>l\<leftarrow>[0..<d1]. elem E [idx ! 0, l] * elem W [idx ! 1, l, k])))"
proof -
  let ?w = "build [t, d1] (\<lambda>idx. elem W (take 2 idx @ k # drop 2 idx))"
  let ?wT = "transpose_T ?w"
  let ?D = "build [n, t]
      (\<lambda>idx. \<Sum>l\<leftarrow>[0..<d1]. elem E [hd idx, l] * elem ?wT (butlast (tl idx) @ [l, last idx]))"
  let ?r = "build [n] (\<lambda>idx. elem R (hd idx # k # tl idx))"
  let ?c = "NDArray [n, 1] (data ?r)"
  let ?M = "build [n, t]
      (\<lambda>idx. elem ?c (bc_index [n, 1] idx) * elem ?D (bc_index [n, t] idx))"
  let ?T = "build [n, t]
      (\<lambda>idx. elem (build [n, t] f) (bc_index [n, t] idx) + elem ?M (bc_index [n, t] idx))"
  have "shape ?wT = [d1, t]" by simp
  from np_dot_2d[OF E this] have D: "np_dot E ?wT = Inr ?D" .
  have c: "getitem_slice_newaxis ?r = Inr ?c"
    by (rule getitem_slice_newaxis_1d) simp
  have M: "np_binop (\<lambda>a b. a * b) ?c ?D = Inr ?M"
    by (rule np_binop_col) simp_all
  have T: "np_iadd (build [n, t] f) ?M = Inr ?T"
    by (rule np_iadd_same) simp_all
  have step: "predict_step W R E k (build [n, t] f) = Inr ?T"
    unfolding predict_step_def
    by (simp only: getitem_slice_slice_int_3d[OF W k] bind_Inr D
        getitem_slice_int_2d[OF R k] c M T)
  have "?T = build [n, t] (\<lambda>idx. f idx +
              elem R [idx ! 0, k] *
              (\<Sum>l\<leftarrow>[0..<d1]. elem E [idx ! 0, l] * elem W [idx ! 1, l, k]))"
  proof (rule build_cong)
    fix idx assume "valid_index [n, t] idx"
    then obtain i j where idx: "idx = [i, j]" and i: "i < n" and j: "j < t"
      by (auto simp: valid_index_2d)
    have b2: "bc_index [n, t] idx = [i, j]"
      using i j by (auto simp: bc_index_def idx)
    have b1: "bc_index [n, 1] idx = [i, 0]"
      using i by (auto simp: bc_index_def idx)
    have v: "valid_index [n, t] [i, j]" using i j by simp
    have w: "elem ?wT [l, j] = elem W [j, l, k]" if "l < d1" for l
    proof -
      have "elem ?wT [l, j] = elem ?w [j, l]"
        using that j by (simp add: transpose_T_def elem_build)
      also have "\<dots> = elem W [j, l, k]"
        using that j by (simp add: elem_build)
      finally show ?thesis .
    qed
    have Dv: "elem ?D [i, j] = (\<Sum>l\<leftarrow>[0..<d1]. elem E [i, l] * elem W [j, l, k])"
      by (simp add: elem_build[OF v] w cong: sum_list_upt_cong)
    have "elem ?r [i] = elem R [i, k]" using i by (simp add: elem_build)
    moreover have "elem ?c [i, 0] = elem ?r [i]" by (simp add: elem_def)
    ultimately have cv: "elem ?c [i, 0] = elem R [i, k]" by simp
    have Mv: "elem ?M [i, j] =
        elem R [i, k] * (\<Sum>l\<leftarrow>[0..<d1]. elem E [i, l] * elem W [j, l, k])"
      by (simp only: elem_build[OF v]) (simp only: b1[unfolded idx] b2[unfolded idx] cv Dv)
    show "elem (build [n, t] f) (bc_index [n, t] idx) + elem ?M (bc_index [n, t] idx) =
          f idx + elem R [idx ! 0, k] *
            (\<Sum>l\<leftarrow>[0..<d1]. elem E [idx ! 0, l] * elem W [idx ! 1, l, k])"
      by (simp only: b2 Mv elem_build[OF v]) (simp add: idx)
  qed
  with step show ?thesis by simp
qed

lemma predict_loop_value:
  assumes W: "shape W = [t, d1, K]" and R: "shape R = [n, K]" and E: "shape E = [n, d1]"
    and ks: "list_all (\<lambda>k. k < K) ks"
  shows "predict_loop W R E ks (build [n, t] f) =
           Inr (build [n, t] (\<lambda>idx. f idx +
              (\<Sum>k\<leftarrow>ks. elem R [idx ! 0, k] *
                 (\<Sum>l\<leftarrow>[0..<d1]. elem E [idx ! 0, l] * elem W [idx ! 1, l, k]))))"
  using ks
proof (induction ks arbitrary: f)
  case Nil
  show ?case by simp
next
  case (Cons k ks)
  from Cons.prems have k: "k < K" and r: "list_all (\<lambda>k. k < K) ks" by simp_all
  show ?case
    by (simp add: predict_step_value[OF W R E k] Cons.IH[OF r] add.assoc)
qed

text \<open>The extended input: a leading column of ones, then the features.\<close>

lemma concat_ones_value:
  assumes "shape X = [n, d]"
  shows "\<exists>E. np_concatenate_axis1 (np_ones [n, 1]) X = Inr E \<and> shape E = [n, d + 1] \<and>
           (\<forall>i l. i < n \<longrightarrow> l < d \<longrightarrow> elem E [i, 0] = 1 \<and> elem E [i, Suc l] = elem X [i, l])"
  using assms
  by (simp add: np_concatenate_axis1_def np_ones_def elem_build)

lemma sum_list_upt_Suc_shift:
  "(\<Sum>l\<leftarrow>[0..<Suc d]. f l) = f 0 + (\<Sum>l\<leftarrow>[0..<d]. f (Suc l) :: real)"
proof -
  have "[0..<Suc d] = 0 # map Suc [0..<d]"
    by (simp add: upt_conv_Cons map_Suc_upt del: upt_Suc)
  then show ?thesis by (simp add: comp_def del: upt_Suc)
qed


text \<open>
  With at least two components and at least one feature, \<open>predict\<close> returns, for the
  sample \<open>i\<close> and the task \<open>j\<close>, the sum over the components \<open>k\<close> of the
  responsibility \<open>R[i, k]\<close> times \<open>W[j, 0, k] + X[i, :] \<cdot> W[j, 1:, k]\<close>, where \<open>W\<close>
  is the weight tensor \<open>fit\<close> computed and \<open>R\<close> the responsibilities of the input.
\<close>

lemma predict_formula:
  assumes fb: "fitted_by sk self0 Xtr ytr self"
    and K: "2 \<le> n_components self0"
    and Xtr: "shape Xtr = [m, d]" and d: "1 \<le> d"
    and X: "shape X = [n, d]"
    and g: "gmm_predict_proba self X = Inr R" "shape R = [n, n_components self0]"
  shows "\<exists>t W. n_tasks_' self = Some t \<and> shape W = [t, d + 1, n_components self0] \<and>
           reg_weights_' self = Some (squeeze W) \<and>
           fst (predict self X) =
             Inr (Some (build [n, t] (\<lambda>idx.
               \<Sum>k\<leftarrow>[0..<n_components self0]. elem R [idx ! 0, k] *
                 (elem W [idx ! 1, 0, k] +
                  (\<Sum>l\<leftarrow>[0..<d]. elem X [idx ! 0, l] * elem W [idx ! 1, Suc l, k])))))"
proof -
  from fitted_by_state[OF fb] Xtr obtain t g' R' L' W P where
    W: "shape W = [t, d + 1, n_components self0]" and
    self: "self = self0\<lparr>is_fitted_' := Some True, n_tasks_' := Some t, n_input_dims_' := Some d,
                  resp_tr_' := Some R', labels_tr_' := Some L',
                  reg_weights_' := Some (squeeze W), reg_precisions_' := Some (squeeze P),
                  gmm_' := Some g'\<rparr>"
    by auto
  from self have t: "n_tasks_' self = Some t" and rw: "reg_weights_' self = Some (squeeze W)"
    and f: "is_fitted_' self = Some True" and nd: "n_input_dims_' self = Some d"
    and Ks: "n_components self = n_components self0"
    by simp_all
  from concat_ones_value[OF X] obtain E where
    E: "np_concatenate_axis1 (np_ones [n, 1]) X = Inr E" "shape E = [n, d + 1]" and
    Ev: "\<And>i l. i < n \<Longrightarrow> l < d \<Longrightarrow> elem E [i, 0] = 1 \<and> elem E [i, Suc l] = elem X [i, l]"
    by blast
  from argmax_ok[OF g(2)] K obtain L where L: "np_argmax_axis1 R = Inr L" by auto
  let ?T = "build [n, t] (\<lambda>idx. 0 +
      (\<Sum>k\<leftarrow>[0..<n_components self0]. elem R [idx ! 0, k] *
         (\<Sum>l\<leftarrow>[0..<d + 1]. elem E [idx ! 0, l] * elem W [idx ! 1, l, k])))"
  have loop: "predict_loop W R E [0..<n_components self0] (np_zeros [n, t]) = Inr ?T"
    unfolding np_zeros_def
    by (rule predict_loop_value[OF W g(2) E(2) list_all_upt])
  have "predict_targets self n X = Inr (R, L, ?T)"
    using reg_weights_restored[OF W d K] g(1) L E(1) loop t rw Ks
    by (simp add: predict_targets_def attr_def)
  from predict_success[OF f X nd this] have p: "fst (predict self X) = Inr (Some ?T)"
    by simp
  have "?T = build [n, t] (\<lambda>idx.
               \<Sum>k\<leftarrow>[0..<n_components self0]. elem R [idx ! 0, k] *
                 (elem W [idx ! 1, 0, k] +
                  (\<Sum>l\<leftarrow>[0..<d]. elem X [idx ! 0, l] * elem W [idx ! 1, Suc l, k])))"
  proof (rule build_cong)
    fix idx assume "valid_index [n, t] idx"
    then obtain i j where idx: "idx = [i, j]" and i: "i < n" and j: "j < t"
      by (auto simp: valid_index_2d)
    from d have d0: "0 < d" by simp
    have inner: "(\<Sum>l\<leftarrow>[0..<Suc d]. elem E [i, l] * elem W [j, l, k]) =
        elem W [j, 0, k] + (\<Sum>l\<leftarrow>[0..<d]. elem X [i, l] * elem W [j, Suc l, k])" for k
    proof -
      have "(\<Sum>l\<leftarrow>[0..<Suc d]. elem E [i, l] * elem W [j, l, k]) =
          elem E [i, 0] * elem W [j, 0, k] +
          (\<Sum>l\<leftarrow>[0..<d]. elem E [i, Suc l] * elem W [j, Suc l, k])"
        by (rule sum_list_upt_Suc_shift)
      also have "elem E [i, 0] = 1" using Ev[OF i d0] by simp
      also have "(\<Sum>l\<leftarrow>[0..<d]. elem E [i, Suc l] * elem W [j, Suc l, k]) =
          (\<Sum>l\<leftarrow>[0..<d]. elem X [i, l] * elem W [j, Suc l, k])"
        by (rule sum_list_upt_cong) (simp add: Ev[OF i])
      finally show ?thesis by simp
    qed
    show "0 + (\<Sum>k\<leftarrow>[0..<n_components self0]. elem R [idx ! 0, k] *
             (\<Sum>l\<leftarrow>[0..<d + 1]. elem E [idx ! 0, l] * elem W [idx ! 1, l, k])) =
          (\<Sum>k\<leftarrow>[0..<n_components self0]. elem R [idx ! 0, k] *
             (elem W [idx ! 1, 0, k] +
              (\<Sum>l\<leftarrow>[0..<d]. elem X [idx ! 0, l] * elem W [idx ! 1, Suc l, k])))"
      by (simp add: idx inner del: upt_Suc)
  qed
  with p t W rw show ?thesis by auto
qed


lemma predict_formula_example:
  "\<exists>t W. n_tasks_' (fitted_demo 2 y3) = Some t \<and> shape W = [t, 1 + 1, 2] \<and>
     reg_weights_' (fitted_demo 2 y3) = Some (squeeze W) \<and>
     fst (predict (fitted_demo 2 y3) X3) =
       Inr (Some (build [3, t] (\<lambda>idx.
         \<Sum>k\<leftarrow>[0..<2]. elem (NDArray [3, 2] [1 / 2, 1 / 2, 1 / 2, 1 / 2, 1 / 2, 1 / 2]) [idx ! 0, k] *
           (elem W [idx ! 1, 0, k] +
            (\<Sum>l\<leftarrow>[0..<1]. elem X3 [idx ! 0, l] * elem W [idx ! 1, Suc l, k])))))"
proof -
  have f: "fitted_by sk_demo (regressor 2) X3 y3 (fitted_demo 2 y3)"
    by (rule fitted_demo_fitted_by [OF fit_demo_2_y3])
  have k: "(2::nat) \<le> n_components (regressor 2)" and k2: "n_components (regressor 2) = 2"
    by (simp_all add: regressor_def init_def)
  have x: "shape X3 = [3, 1]" by (simp add: X3_def)
  have d: "(1::nat) \<le> 1" by simp
  have g: "gmm_predict_proba (fitted_demo 2 y3) X3
     = Inr (NDArray [3, 2] [1 / 2, 1 / 2, 1 / 2, 1 / 2, 1 / 2, 1 / 2])"
    by code_simp
  have r: "shape (NDArray [3, 2] [1 / 2, 1 / 2, 1 / 2, 1 / 2, 1 / 2, 1 / 2 :: real])
             = [3, n_components (regressor 2)]"
    by (simp add: k2)
  from predict_formula[OF f k x d x g r] show ?thesis
    by (simp only: k2)
qed

text \<open>The value and the output of \<open>predict\<close> do not depend on the two caches.\<close>

lemma predict_ignores_caches:
  "fst (predict (self\<lparr>resp_tst_' := a, labels_tst_' := b\<rparr>) X) = fst (predict self X) \<and>
   fst (snd (predict (self\<lparr>resp_tst_' := a, labels_tst_' := b\<rparr>) X)) = fst (snd (predict self X))"
proof (cases "\<exists>T. fst (predict self X) = Inr (Some T)")
  case True
  then obtain T where T: "fst (predict self X) = Inr (Some T)" by blast
  from predict_Some[OF T] obtain n d R L where
    h: "is_fitted_' self = Some True" "shape X = [n, d]" "n_input_dims_' self = Some d"
       "predict_targets self n X = Inr (R, L, T)"
    by blast
  let ?s = "self\<lparr>resp_tst_' := a, labels_tst_' := b\<rparr>"
  have "predict ?s X = (Inr (Some T), [], ?s\<lparr>resp_tst_' := Some R, labels_tst_' := Some L\<rparr>)"
    by (rule predict_success[where n = n and d = d])
       (simp_all add: h predict_targets_caches)
  with predict_success[OF h] show ?thesis by simp
next
  case False
  let ?s = "self\<lparr>resp_tst_' := a, labels_tst_' := b\<rparr>"
  have "\<not> (\<exists>T. fst (predict ?s X) = Inr (Some T))"
  proof
    assume "\<exists>T. fst (predict ?s X) = Inr (Some T)"
    then obtain T where T: "fst (predict ?s X) = Inr (Some T)" by blast
    from predict_Some[OF T] obtain n d R L where
      h: "is_fitted_' ?s = Some True" "shape X = [n, d]" "n_input_dims_' ?s = Some d"
         "predict_targets ?s n X = Inr (R, L, T)"
      by blast
    have "predict self X = (Inr (Some T), [], self\<lparr>resp_tst_' := Some R, labels_tst_' := Some L\<rparr>)"
      using h by (intro predict_success[where n = n and d = d]) (simp_all add: predict_targets_caches)
    with False show False by simp
  qed
  with False show ?thesis
    by (simp add: predict_def predict_targets_caches
        split: option.splits list.splits sum.splits prod.splits)
qed

section \<open>The claims\<close>

text \<open>
  C1 (as amended). The claim is that \<open>predict\<close> and \<open>score\<close> on an instance that has
  not been fitted fail with a NotFittedError and never return \<open>None\<close>. As written,
  \<open>predict\<close> on an instance whose flag \<open>is_fitted_\<close> is \<open>False\<close> (a \<open>fit\<close> was started
  and did not finish) raises nothing: it prints \<open>Model isn't fitted.\<close>, returns \<open>None\<close>
  and leaves the instance as it was; \<open>score\<close> prints the same line and hands that
  \<open>None\<close> to \<open>r2_score\<close>, whose outcome is the outcome of \<open>score\<close>.
\<close>

theorem predict_not_fitted:
  "is_fitted_' self = Some False \<Longrightarrow>
   predict self X = (Inr None, [''Model isn't fitted.''], self) \<and>
   score sk self X y = (r2_score sk y None, [''Model isn't fitted.''], self)"
  by (simp add: predict_def score_def)

theorem predict_not_fitted_witness:
  "is_fitted_' (snd (snd (fit sk_demo (regressor 2) X3 y2))) = Some False \<and>
   fst (predict (snd (snd (fit sk_demo (regressor 2) X3 y2))) X3) = Inr None \<and>
   fst (score sk_demo (snd (snd (fit sk_demo (regressor 2) X3 y2))) X3 y3)
     = Inl (ExternalError ''TypeError'')"
proof -
  have h: "is_fitted_' (snd (snd (fit sk_demo (regressor 2) X3 y2))) = Some False"
    by code_simp
  from predict_not_fitted[OF h, of X3 sk_demo y3] h show ?thesis
    by (simp add: sk_demo_def)
qed

text \<open>
  C1, the counterexample: a new instance on which \<open>fit\<close> failed (three samples in
  \<open>X\<close>, two in \<open>y\<close>) has had no successful \<open>fit\<close>; \<open>predict\<close> on it returns \<open>None\<close>,
  which is not an exception, and prints one line.
\<close>

theorem predict_unfitted_returns_None:
  "fst (fit sk_demo (regressor 2) X3 y2) = Inl (NameError ''sys'') \<and>
   fst (predict (snd (snd (fit sk_demo (regressor 2) X3 y2))) X3) = Inr None \<and>
   fst (snd (predict (snd (snd (fit sk_demo (regressor 2) X3 y2))) X3))
     = [''Model isn't fitted.'']"
  by code_simp

text \<open>
  C2 (as amended). The claim is that \<open>fit\<close> with different sample counts in \<open>X\<close> and
  \<open>y\<close> fails with a ShapeMismatchError, never prints and never exits. As written,
  \<open>fit\<close> prints the three lines of the data size message and ends by \<open>sys.exit()\<close>:
  it does not return, it assigns no attribute but \<open>is_fitted_\<close>, which it leaves
  \<open>False\<close>, and the exception it ends with is not a ShapeMismatchError.
\<close>

theorem fit_sample_count_mismatch:
  assumes "shape X = [n_x, d]" and "shape y = [n_y, t] \<or> shape y = [n_y]" and "n_x \<noteq> n_y"
  shows "fit sk self X y =
           (sys_exit None,
            [''Data size error. Number of samples in X and y must match:'',
             ''X n_samples = '' @ str_nat n_x @ '', y n_samples = '' @ str_nat n_y,
             ''Exiting.''],
            self\<lparr>is_fitted_' := Some False\<rparr>) \<and>
         isl (fst (fit sk self X y)) \<and>
         map_sum error_class id (fst (fit sk self X y)) \<noteq> Inl ''ShapeMismatchError''"
proof -
  from assms have
    "check_data X y =
       (sys_exit None,
        [''Data size error. Number of samples in X and y must match:'',
         ''X n_samples = '' @ str_nat n_x @ '', y n_samples = '' @ str_nat n_y,
         ''Exiting.''])"
    by (auto simp: check_data_def ndim_def getitem_slice_newaxis_def)
  then show ?thesis
    by (simp add: fit_def Let_def sys_exit_raises)
qed

theorem fit_sample_count_mismatch_witness:
  "shape X3 = [3, 1] \<and> shape y2 = [2] \<and> (3::nat) \<noteq> 2 \<and>
   isl (fst (fit sk_demo (regressor 2) X3 y2)) \<and>
   fst (snd (fit sk_demo (regressor 2) X3 y2)) =
     [''Data size error. Number of samples in X and y must match:'',
      ''X n_samples = 3, y n_samples = 2'', ''Exiting.'']"
proof -
  have h: "shape X3 = [3, 1]" "shape y2 = [2, 1] \<or> shape y2 = [2]" "(3::nat) \<noteq> 2"
    by (simp_all add: X3_def y2_def)
  have s: "str_nat 3 = ''3''" "str_nat 2 = ''2''" by code_simp+
  note r = fit_sample_count_mismatch[OF h, of sk_demo "regressor 2"]
  from r have a: "isl (fst (fit sk_demo (regressor 2) X3 y2))" by blast
  from r have b: "fst (snd (fit sk_demo (regressor 2) X3 y2)) =
     [''Data size error. Number of samples in X and y must match:'',
      ''X n_samples = 3, y n_samples = 2'', ''Exiting.'']"
    by (simp add: s)
  show ?thesis using h(1) a b by (simp add: y2_def)
qed

text \<open>
  C2, the counterexample: with three samples in \<open>X\<close> and two in \<open>y\<close>, the exception
  \<open>fit\<close> ends with has the class NameError, and three lines were printed before it.
\<close>

theorem fit_mismatch_not_ShapeMismatchError:
  "map_sum error_class id (fst (fit sk_demo (regressor 2) X3 y2)) = Inl ''NameError'' \<and>
   length (fst (snd (fit sk_demo (regressor 2) X3 y2))) = 3"
  by code_simp


text \<open>
  C3 (as amended). The claim is that a failed \<open>fit\<close> leaves a previously fitted model
  intact and usable by \<open>predict\<close>. As written, \<open>fit\<close> begins by setting \<open>is_fitted_\<close> to
  \<open>False\<close>; when it then fails at any step, that is the only attribute it has
  changed, so every array of the previous model is still there and none of the failed
  attempt is, but \<open>predict\<close> refuses to use them: it prints \<open>Model isn't fitted.\<close>
  and returns \<open>None\<close>.
\<close>

theorem fit_failure_invalidates:
  "fst (fit sk self X y) = Inl e \<Longrightarrow>
   snd (snd (fit sk self X y)) = self\<lparr>is_fitted_' := Some False\<rparr> \<and>
   predict (snd (snd (fit sk self X y))) X' =
     (Inr None, [''Model isn't fitted.''], snd (snd (fit sk self X y)))"
proof -
  assume "fst (fit sk self X y) = Inl e"
  then have "snd (snd (fit sk self X y)) = self\<lparr>is_fitted_' := Some False\<rparr>"
    by (auto simp: fit_def Let_def split: sum.splits prod.splits)
  then show ?thesis
    by (simp add: predict_def)
qed

theorem fit_failure_invalidates_witness:
  "fst (fit sk_demo (fitted_demo 2 y3) X3 y2) = Inl (NameError ''sys'') \<and>
   snd (snd (fit sk_demo (fitted_demo 2 y3) X3 y2))
     = (fitted_demo 2 y3)\<lparr>is_fitted_' := Some False\<rparr> \<and>
   fst (predict (snd (snd (fit sk_demo (fitted_demo 2 y3) X3 y2))) X3) = Inr None"
proof -
  have h: "fst (fit sk_demo (fitted_demo 2 y3) X3 y2) = Inl (NameError ''sys'')"
    by code_simp
  note r = fit_failure_invalidates[OF h, of X3]
  from r have a: "snd (snd (fit sk_demo (fitted_demo 2 y3) X3 y2))
     = (fitted_demo 2 y3)\<lparr>is_fitted_' := Some False\<rparr>" by (rule conjunct1)
  from r have "predict (snd (snd (fit sk_demo (fitted_demo 2 y3) X3 y2))) X3 =
     (Inr None, [''Model isn't fitted.''], snd (snd (fit sk_demo (fitted_demo 2 y3) X3 y2)))"
    by (rule conjunct2)
  then have b: "fst (predict (snd (snd (fit sk_demo (fitted_demo 2 y3) X3 y2))) X3) = Inr None"
    by (simp only: fst_conv)
  from h a b show ?thesis by (intro conjI)
qed

text \<open>
  C3, the counterexample: a model fitted on three samples predicts them; after a second
  \<open>fit\<close> that fails (two targets for three samples) the same call of \<open>predict\<close> returns
  \<open>None\<close>.
\<close>

theorem failed_fit_disables_fitted_model:
  "fst (fit sk_demo (regressor 2) X3 y3) = Inr () \<and>
   fst (predict (fitted_demo 2 y3) X3) = Inr (Some (NDArray [3, 1] [1 / 3, 1 / 3, 1 / 3])) \<and>
   isl (fst (fit sk_demo (fitted_demo 2 y3) X3 y2)) \<and>
   fst (predict (snd (snd (fit sk_demo (fitted_demo 2 y3) X3 y2))) X3) = Inr None"
  by code_simp

text \<open>
  C4 (the code at the failing input). The claim is that \<open>predict\<close> returns the
  responsibility-weighted sum of the cluster predictions for every fitted model. With
  two or more components it does (\<open>predict_formula\<close> above). With one component,
  \<open>fit\<close> squeezes the component axis out of the weight tensor, and \<open>predict\<close>, which
  undoes the squeeze for one task only, indexes a third axis that is no longer there:
  it raises IndexError for every input and returns no targets.
\<close>

theorem predict_one_component:
  assumes fb: "fitted_by sk self0 Xtr ytr self"
    and K: "n_components self0 = 1"
    and Xtr: "shape Xtr = [m, d]" and X: "shape X = [n, d]"
    and g: "gmm_predict_proba self X = Inr R" "shape R = [n, 1]"
  shows "predict self X = (Inl IndexError, [], self)"
proof -
  from fitted_by_state[OF fb] Xtr obtain t g' R' L' W P where
    W: "shape W = [t, d + 1, n_components self0]" and
    self: "self = self0\<lparr>is_fitted_' := Some True, n_tasks_' := Some t, n_input_dims_' := Some d,
                  resp_tr_' := Some R', labels_tr_' := Some L',
                  reg_weights_' := Some (squeeze W), reg_precisions_' := Some (squeeze P),
                  gmm_' := Some g'\<rparr>"
    by auto
  from self K have K1: "n_components self = 1" by simp
  from self have t: "n_tasks_' self = Some t" and rw: "reg_weights_' self = Some (squeeze W)"
    and f: "is_fitted_' self = Some True" and nd: "n_input_dims_' self = Some d"
    by simp_all
  from concat_ones_shape[OF X] obtain E where
    E: "np_concatenate_axis1 (np_ones [n, 1]) X = Inr E" by blast
  from argmax_ok[OF g(2)] obtain L where L: "np_argmax_axis1 R = Inr L" by auto
  have sq: "length (shape (squeeze W)) \<le> 2"
    using W K by (simp add: squeeze_def)
  have "predict_targets self n X = Inl IndexError"
  proof (cases "t = 1")
    case True
    with W K have "length (shape (squeeze W)) \<le> 1" by (simp add: squeeze_def)
    then have "getitem_newaxis_slice_slice (squeeze W) = Inl IndexError"
      by (simp add: getitem_newaxis_slice_slice_def ndim_def)
    with True t rw show ?thesis
      by (simp add: predict_targets_def attr_def)
  next
    case False
    from sq have "getitem_slice_slice_int (squeeze W) 0 = Inl IndexError"
      by (auto simp: getitem_slice_slice_int_def split: list.splits)
    then have "predict_loop (squeeze W) R E [0..<1] (np_zeros [n, t]) = Inl IndexError"
      by (simp add: predict_step_def)
    with False g(1) L E K1 t rw show ?thesis
      by (simp add: predict_targets_def attr_def)
  qed
  with f X nd show ?thesis
    by (simp add: predict_def)
qed

theorem predict_one_component_witness:
  "fitted_by sk_demo (regressor 1) X3 y3 (fitted_demo 1 y3) \<and>
   n_components (regressor 1) = 1 \<and> shape X3 = [3, 1] \<and>
   gmm_predict_proba (fitted_demo 1 y3) X3 = Inr (NDArray [3, 1] [1, 1, 1]) \<and>
   fst (predict (fitted_demo 1 y3) X3) = Inl IndexError"
proof -
  have f: "fitted_by sk_demo (regressor 1) X3 y3 (fitted_demo 1 y3)"
    by (rule fitted_demo_fitted_by [OF fit_demo_1_y3])
  have k: "n_components (regressor 1) = 1" by (simp add: regressor_def init_def)
  have x: "shape X3 = [3, 1]" by (simp add: X3_def)
  have g: "gmm_predict_proba (fitted_demo 1 y3) X3 = Inr (NDArray [3, 1] [1, 1, 1])"
    by code_simp
  have r: "shape (NDArray [3, 1] [1, 1, 1 :: real]) = [3, 1]" by simp
  from predict_one_component[OF f k x x g r] have
    "fst (predict (fitted_demo 1 y3) X3) = Inl IndexError" by simp
  with f k x g show ?thesis by (intro conjI)
qed

text \<open>
  C5 (the code at the failing input). The claim is a precision per cluster and per
  task, with the squared residuals of that task in the denominator. With two tasks,
  \<open>np.sum\<close> without an axis adds the weighted squared residuals of both tasks, and the
  one number it gives is stored for both. On the example data (intercepts \<open>1/3\<close> and
  \<open>2/3\<close>, no slope, responsibilities and prior weight \<open>1/2\<close>) the stored precision is
  \<open>9/10\<close> for either task, where the claim's formula gives \<open>9/2\<close> and \<open>9/8\<close>.
\<close>

theorem precision_sums_over_all_tasks:
  "estimate_regression_params_k sk_demo X3 y32 (NDArray [3] [1 / 2, 1 / 2, 1 / 2]) 1
       (scalar (1 / 2))
     = Inr (NDArray [2, 2] [1 / 3, 0, 2 / 3, 0], NDArray [] [9 / 10]) \<and>
   reg_precisions_' (fitted_demo 2 y32)
     = Some (NDArray [2, 2] [9 / 10, 9 / 10, 9 / 10, 9 / 10]) \<and>
   spec_precision 3 (1 / 2) [1 / 2, 1 / 2, 1 / 2] [0 - 1 / 3, 1 - 1 / 3, 0 - 1 / 3] = 9 / 2 \<and>
   spec_precision 3 (1 / 2) [1 / 2, 1 / 2, 1 / 2] [0 - 2 / 3, 2 - 2 / 3, 0 - 2 / 3] = 9 / 8"
  by code_simp

text \<open>
  C6 (the code at the failing input). The claim is that the configured covariance
  structure is passed to the density model and affects its fit. \<open>fit\<close> never reads
  \<open>covariance_type\<close>: the mixture is always built with the constructor's default,
  and two instances that differ in \<open>covariance_type\<close> only give the same outcome,
  the same output and the same fitted attributes, whatever the collaborators do.
\<close>

theorem covariance_type_not_passed:
  "kw_covariance_type (GMM_call (self\<lparr>covariance_type := c\<rparr>)) = ''full'' \<and>
   fit sk (self\<lparr>covariance_type := c\<rparr>) X y =
     (case fit sk self X y of (r, out, s) \<Rightarrow> (r, out, s\<lparr>covariance_type := c\<rparr>))"
  by (auto simp: fit_def fit_arrays_def GMM_call_def Let_def split: sum.splits prod.splits)

theorem covariance_type_not_passed_witness:
  "kw_covariance_type (GMM_call ((regressor 2)\<lparr>covariance_type := ''tied''\<rparr>)) = ''full'' \<and>
   fst (fit sk_demo ((regressor 2)\<lparr>covariance_type := ''tied''\<rparr>) X3 y3) =
     fst (fit sk_demo (regressor 2) X3 y3)"
  using covariance_type_not_passed
    [where self = "regressor 2" and c = "''tied''" and sk = sk_demo and X = X3 and y = y3]
  by (simp add: case_prod_beta)

text \<open>
  C7 (as amended). The claim is that \<open>predict\<close> returns an \<open>n\<close> by \<open>t\<close> matrix for
  \<open>t > 1\<close> and a vector of length \<open>n\<close> for \<open>t = 1\<close>. As written, \<open>predict\<close> returns the
  accumulator it created with shape \<open>(n, n_tasks_)\<close> and never squeezes it: for a model
  fitted with at least two components on at least one feature, and an input of \<open>n\<close>
  rows for which the mixture gives an \<open>n\<close> by \<open>K\<close> responsibility matrix, the result is
  \<open>n\<close> by \<open>t\<close> for every \<open>t\<close>, also for \<open>t = 1\<close> and also when \<open>fit\<close> was given a
  1-dimensional \<open>y\<close>.
\<close>

theorem predict_shape:
  assumes fb: "fitted_by sk self0 Xtr ytr self"
    and K: "2 \<le> n_components self0"
    and Xtr: "shape Xtr = [m, d]" and d: "1 \<le> d"
    and X: "shape X = [n, d]"
    and g: "gmm_predict_proba self X = Inr R" "shape R = [n, n_components self0]"
  shows "\<exists>t T. n_tasks_' self = Some t \<and>
           (shape ytr = [m] \<and> t = 1 \<or> shape ytr = [m, t]) \<and>
           fst (predict self X) = Inr (Some T) \<and> shape T = [n, t]"
proof -
  from fitted_by_state[OF fb] Xtr obtain t g' R' L' W P where
    W: "shape W = [t, d + 1, n_components self0]" and
    y: "shape ytr = [m] \<and> t = 1 \<or> shape ytr = [m, t]" and
    self: "self = self0\<lparr>is_fitted_' := Some True, n_tasks_' := Some t, n_input_dims_' := Some d,
                  resp_tr_' := Some R', labels_tr_' := Some L',
                  reg_weights_' := Some (squeeze W), reg_precisions_' := Some (squeeze P),
                  gmm_' := Some g'\<rparr>"
    by auto
  from self have t: "n_tasks_' self = Some t" and rw: "reg_weights_' self = Some (squeeze W)"
    and f: "is_fitted_' self = Some True" and nd: "n_input_dims_' self = Some d"
    and Ks: "n_components self = n_components self0"
    by simp_all
  from concat_ones_shape[OF X] obtain E where
    E: "np_concatenate_axis1 (np_ones [n, 1]) X = Inr E" "shape E = [n, d + 1]" by blast
  from argmax_ok[OF g(2)] K obtain L where L: "np_argmax_axis1 R = Inr L" by auto
  have Z: "shape (np_zeros [n, t]) = [n, t]" by (simp add: np_zeros_def)
  from predict_loop_shape[OF W g(2) E(2) Z list_all_upt] obtain T where
    T: "predict_loop W R E [0..<n_components self0] (np_zeros [n, t]) = Inr T"
       "shape T = [n, t]" by blast
  have "predict_targets self n X = Inr (R, L, T)"
    using reg_weights_restored[OF W d K] g(1) L E(1) T(1) t rw Ks
    by (simp add: predict_targets_def attr_def)
  from predict_success[OF f X nd this] have "fst (predict self X) = Inr (Some T)"
    by simp
  with T(2) t y show ?thesis by blast
qed

theorem predict_shape_witness:
  "fitted_by sk_demo (regressor 2) X3 y3 (fitted_demo 2 y3) \<and>
   (2::nat) \<le> n_components (regressor 2) \<and> shape X3 = [3, 1] \<and> (1::nat) \<le> 1 \<and>
   gmm_predict_proba (fitted_demo 2 y3) X3
     = Inr (NDArray [3, 2] [1 / 2, 1 / 2, 1 / 2, 1 / 2, 1 / 2, 1 / 2]) \<and>
   (\<exists>t T. n_tasks_' (fitted_demo 2 y3) = Some t \<and>
      (shape y3 = [3] \<and> t = 1 \<or> shape y3 = [3, t]) \<and>
      fst (predict (fitted_demo 2 y3) X3) = Inr (Some T) \<and> shape T = [3, t])"
proof -
  have f: "fitted_by sk_demo (regressor 2) X3 y3 (fitted_demo 2 y3)"
    by (rule fitted_demo_fitted_by [OF fit_demo_2_y3])
  have k: "(2::nat) \<le> n_components (regressor 2)" by (simp add: regressor_def init_def)
  have x: "shape X3 = [3, 1]" by (simp add: X3_def)
  have d: "(1::nat) \<le> 1" by simp
  have g: "gmm_predict_proba (fitted_demo 2 y3) X3
     = Inr (NDArray [3, 2] [1 / 2, 1 / 2, 1 / 2, 1 / 2, 1 / 2, 1 / 2])"
    by code_simp
  have r: "shape (NDArray [3, 2] [1 / 2, 1 / 2, 1 / 2, 1 / 2, 1 / 2, 1 / 2 :: real])
             = [3, n_components (regressor 2)]"
    by (simp add: regressor_def init_def)
  from f k x d g predict_shape[OF f k x d x g r] show ?thesis by (intro conjI)
qed

text \<open>
  C7, the counterexample: a model fitted on the 1-dimensional target \<open>[0, 1, 0]\<close> (one
  task) predicts three samples as a 3 by 1 array, not as a vector of length 3.
\<close>

theorem predict_one_task_not_squeezed:
  "shape y3 = [3] \<and>
   n_tasks_' (fitted_demo 2 y3) = Some 1 \<and>
   fst (predict (fitted_demo 2 y3) X3) = Inr (Some (NDArray [3, 1] [1 / 3, 1 / 3, 1 / 3]))"
  by code_simp

text \<open>
  C8 (as amended). The claim is that \<open>predict\<close> on a fitted model with an input of
  another feature dimension fails with a ShapeMismatchError. As written, \<open>predict\<close>
  prints \<open>Incorrect dimensions for input data.\<close> and ends by \<open>sys.exit(0)\<close>: it
  returns nothing, it leaves the instance as it was, and the exception it ends with is
  not a ShapeMismatchError.
\<close>

theorem predict_wrong_dimension:
  assumes "fitted_by sk self0 Xtr ytr self" and "shape Xtr = [m, d0]"
    and "shape X = [n, d]" and "d \<noteq> d0"
  shows "predict self X =
           (sys_exit (Some 0), [''Incorrect dimensions for input data.''], self) \<and>
         isl (fst (predict self X)) \<and>
         map_sum error_class id (fst (predict self X)) \<noteq> Inl ''ShapeMismatchError''"
proof -
  from fitted_by_state[OF assms(1)] assms(2) have
    "is_fitted_' self = Some True" "n_input_dims_' self = Some d0"
    by auto
  with assms(3,4) show ?thesis
    by (simp add: predict_def sys_exit_raises)
qed

theorem predict_wrong_dimension_witness:
  "fitted_by sk_demo (regressor 2) X3 y3 (fitted_demo 2 y3) \<and>
   shape X3 = [3, 1] \<and> shape (NDArray [1, 2] [0, 1 :: real]) = [1, 2] \<and> (2::nat) \<noteq> 1 \<and>
   isl (fst (predict (fitted_demo 2 y3) (NDArray [1, 2] [0, 1]))) \<and>
   fst (snd (predict (fitted_demo 2 y3) (NDArray [1, 2] [0, 1])))
     = [''Incorrect dimensions for input data.'']"
proof -
  have f: "fitted_by sk_demo (regressor 2) X3 y3 (fitted_demo 2 y3)"
    by (rule fitted_demo_fitted_by [OF fit_demo_2_y3])
  have h: "shape X3 = [3, 1]" "shape (NDArray [1, 2] [0, 1 :: real]) = [1, 2]" "(2::nat) \<noteq> 1"
    by (simp_all add: X3_def)
  note r = predict_wrong_dimension[OF f h]
  from r have a: "isl (fst (predict (fitted_demo 2 y3) (NDArray [1, 2] [0, 1])))" by blast
  from r have b: "fst (snd (predict (fitted_demo 2 y3) (NDArray [1, 2] [0, 1])))
     = [''Incorrect dimensions for input data.'']" by simp
  show ?thesis using f h(1) a b by simp
qed

text \<open>
  C8, the counterexample: a model fitted on one feature, given an input of two
  features, ends with an exception of the class NameError.
\<close>

theorem predict_wrong_dimension_not_ShapeMismatchError:
  "fst (fit sk_demo (regressor 2) X3 y3) = Inr () \<and>
   map_sum error_class id (fst (predict (fitted_demo 2 y3) (NDArray [1, 2] [0, 1])))
     = Inl ''NameError''"
  by code_simp

text \<open>
  C9. \<open>predict\<close> is idempotent: a second call with the same input, on the instance the
  first call left, returns the same value, prints the same and leaves the same
  instance; and what a call returns and prints does not depend on what the two caches
  hold, the only attributes a call writes. This holds for every instance and every
  input, fitted or not.
\<close>

theorem predict_idempotent:
  "predict (snd (snd (predict self X))) X = predict self X \<and>
   fst (predict (self\<lparr>resp_tst_' := a, labels_tst_' := b\<rparr>) X) = fst (predict self X)"
proof -
  have "predict (snd (snd (predict self X))) X = predict self X"
  proof (cases "\<exists>T. fst (predict self X) = Inr (Some T)")
    case True
    then obtain T where T: "fst (predict self X) = Inr (Some T)" by blast
    from predict_Some[OF T] obtain n d R L where
      h: "is_fitted_' self = Some True" "shape X = [n, d]" "n_input_dims_' self = Some d"
         "predict_targets self n X = Inr (R, L, T)"
      by blast
    let ?s = "self\<lparr>resp_tst_' := Some R, labels_tst_' := Some L\<rparr>"
    have first: "predict self X = (Inr (Some T), [], ?s)"
      by (rule predict_success[OF h])
    have "predict ?s X = (Inr (Some T), [], ?s\<lparr>resp_tst_' := Some R, labels_tst_' := Some L\<rparr>)"
      by (rule predict_success[where n = n and d = d])
         (simp_all add: h predict_targets_caches)
    then have "predict ?s X = (Inr (Some T), [], ?s)" by simp
    with first show ?thesis by simp
  next
    case False
    then have "snd (snd (predict self X)) = self"
      by (intro predict_unchanged) blast
    then show ?thesis by simp
  qed
  with predict_ignores_caches[where self = self and a = a and b = b and X = X]
  show ?thesis by simp
qed

theorem predict_idempotent_witness:
  "fst (predict (snd (snd (predict (fitted_demo 2 y3) X3))) X3)
     = Inr (Some (NDArray [3, 1] [1 / 3, 1 / 3, 1 / 3])) \<and>
   fst (predict (fitted_demo 2 y3) X3) = Inr (Some (NDArray [3, 1] [1 / 3, 1 / 3, 1 / 3]))"
proof -
  have "fst (predict (fitted_demo 2 y3) X3) = Inr (Some (NDArray [3, 1] [1 / 3, 1 / 3, 1 / 3]))"
    by code_simp
  with predict_idempotent[where self = "fitted_demo 2 y3" and X = X3] show ?thesis by simp
qed

text \<open>
  C10. \<open>predict\<close> writes nothing but the two caches \<open>resp_tst_\<close> and \<open>labels_tst_\<close>:
  putting their old values back gives the instance as it was before the call, so
  \<open>gmm_\<close>, \<open>reg_weights_\<close>, \<open>reg_precisions_\<close>, \<open>n_tasks_\<close>, \<open>n_input_dims_\<close>,
  \<open>is_fitted_\<close>, \<open>resp_tr_\<close> and \<open>labels_tr_\<close> are unchanged by every call. A call
  that returns targets has written the responsibilities of the input and their row-wise
  argmax into the two caches.
\<close>

theorem predict_writes_only_caches:
  "(snd (snd (predict self X)))\<lparr>resp_tst_' := resp_tst_' self,
                                 labels_tst_' := labels_tst_' self\<rparr> = self \<and>
   gmm_' (snd (snd (predict self X))) = gmm_' self \<and>
   reg_weights_' (snd (snd (predict self X))) = reg_weights_' self \<and>
   reg_precisions_' (snd (snd (predict self X))) = reg_precisions_' self \<and>
   n_tasks_' (snd (snd (predict self X))) = n_tasks_' self \<and>
   n_input_dims_' (snd (snd (predict self X))) = n_input_dims_' self \<and>
   is_fitted_' (snd (snd (predict self X))) = is_fitted_' self \<and>
   resp_tr_' (snd (snd (predict self X))) = resp_tr_' self \<and>
   labels_tr_' (snd (snd (predict self X))) = labels_tr_' self \<and>
   (\<forall>T. fst (predict self X) = Inr (Some T) \<longrightarrow>
      (\<exists>R L. gmm_predict_proba self X = Inr R \<and> np_argmax_axis1 R = Inr L \<and>
         snd (snd (predict self X)) = self\<lparr>resp_tst_' := Some R, labels_tst_' := Some L\<rparr>))"
proof -
  let ?s = "snd (snd (predict self X))"
  have cache: "\<exists>R L. gmm_predict_proba self X = Inr R \<and> np_argmax_axis1 R = Inr L \<and>
         ?s = self\<lparr>resp_tst_' := Some R, labels_tst_' := Some L\<rparr>"
    if T: "fst (predict self X) = Inr (Some T)" for T
  proof -
    from predict_Some[OF T] obtain n d R L where
      h: "is_fitted_' self = Some True" "shape X = [n, d]" "n_input_dims_' self = Some d"
         "predict_targets self n X = Inr (R, L, T)"
      by blast
    from h(4) have "gmm_predict_proba self X = Inr R \<and> np_argmax_axis1 R = Inr L"
      by (auto simp: predict_targets_def bind_Inr_iff)
    moreover from predict_success[OF h]
    have "?s = self\<lparr>resp_tst_' := Some R, labels_tst_' := Some L\<rparr>" by simp
    ultimately show ?thesis by blast
  qed
  have frame: "?s\<lparr>resp_tst_' := resp_tst_' self, labels_tst_' := labels_tst_' self\<rparr> = self"
  proof (cases "\<exists>T. fst (predict self X) = Inr (Some T)")
    case True
    then obtain T where "fst (predict self X) = Inr (Some T)" by blast
    from cache[OF this] obtain R L where
      "?s = self\<lparr>resp_tst_' := Some R, labels_tst_' := Some L\<rparr>" by blast
    then show ?thesis by simp
  next
    case False
    then have "?s = self" by (intro predict_unchanged) blast
    then show ?thesis by simp
  qed
  have "gmm_' ?s = gmm_' self" "reg_weights_' ?s = reg_weights_' self"
    "reg_precisions_' ?s = reg_precisions_' self" "n_tasks_' ?s = n_tasks_' self"
    "n_input_dims_' ?s = n_input_dims_' self" "is_fitted_' ?s = is_fitted_' self"
    "resp_tr_' ?s = resp_tr_' self" "labels_tr_' ?s = labels_tr_' self"
    using arg_cong[OF frame, of gmm_'] arg_cong[OF frame, of reg_weights_']
      arg_cong[OF frame, of reg_precisions_'] arg_cong[OF frame, of n_tasks_']
      arg_cong[OF frame, of n_input_dims_'] arg_cong[OF frame, of is_fitted_']
      arg_cong[OF frame, of resp_tr_'] arg_cong[OF frame, of labels_tr_']
    by simp_all
  with frame cache show ?thesis by blast
qed

theorem predict_writes_only_caches_witness:
  "fst (predict (fitted_demo 2 y3) X3) = Inr (Some (NDArray [3, 1] [1 / 3, 1 / 3, 1 / 3])) \<and>
   reg_weights_' (snd (snd (predict (fitted_demo 2 y3) X3))) = reg_weights_' (fitted_demo 2 y3) \<and>
   (\<exists>R L. gmm_predict_proba (fitted_demo 2 y3) X3 = Inr R \<and> np_argmax_axis1 R = Inr L \<and>
      snd (snd (predict (fitted_demo 2 y3) X3))
        = (fitted_demo 2 y3)\<lparr>resp_tst_' := Some R, labels_tst_' := Some L\<rparr>)"
proof -
  have h: "fst (predict (fitted_demo 2 y3) X3) = Inr (Some (NDArray [3, 1] [1 / 3, 1 / 3, 1 / 3]))"
    by code_simp
  with predict_writes_only_caches[of "fitted_demo 2 y3" X3] show ?thesis by blast
qed

end
